theory Spec2Isabelle
  imports Main "HOL-Library.AList" "HOL-Library.Word"
begin

section \<open>JavaScript values read from external JSON\<close>

text \<open>
  The adapter and the providers receive documents typed \<^verbatim>\<open>any\<close>: the result of
  \<^verbatim>\<open>JSON.parse\<close> or \<^verbatim>\<open>response.json()\<close>. A value is one of the JSON shapes,
  \<^verbatim>\<open>undefined\<close> (what reading an absent property gives), or a built-in function
  reached through a prototype (\<open>JFun\<close>; the only one this program can meet is
  \<^verbatim>\<open>Array.prototype.values\<close>, when it reads \<^verbatim>\<open>.values\<close> of an array).
  A number is held as the numeral JavaScript renders it with (\<^verbatim>\<open>String(n)\<close>:
  \<open>42\<close>, \<open>-1.5\<close>, \<open>1e+21\<close>): this program only tests numbers for truth, compares
  them and converts them to strings, equal numbers have equal renderings, and the one
  pair of numbers with the same rendering, \<open>+0\<close> and \<open>-0\<close>, is told apart by none of
  these. A string is the list of its UTF-16 code units, of which a \<open>char\<close> holds those
  below 256. An object is the list of its own properties, each name once.
\<close>

datatype json =
    JUndefined
  | JNull
  | JBool bool
  | JNum string
  | JStr string
  | JArr "json list"
  | JObj "(string \<times> json) list"
  | JFun string

text \<open>
  What the program can throw: \<^verbatim>\<open>new Error(message)\<close> of its own, and the
  engine's \<^verbatim>\<open>TypeError\<close> (the message wording is V8's).
\<close>

datatype js_error = Error string | TypeError string

fun message :: "js_error \<Rightarrow> string" where
  "message (Error m) = m"
| "message (TypeError m) = m"

definition bindE :: "'e + 'a \<Rightarrow> ('a \<Rightarrow> 'e + 'b) \<Rightarrow> 'e + 'b" where
  "bindE m f = (case m of Inl e \<Rightarrow> Inl e | Inr x \<Rightarrow> f x)"

fun mapE :: "('a \<Rightarrow> 'e + 'b) \<Rightarrow> 'a list \<Rightarrow> 'e + 'b list" where
  "mapE f [] = Inr []"
| "mapE f (x # xs) =
     (case f x of Inl e \<Rightarrow> Inl e
      | Inr y \<Rightarrow> (case mapE f xs of Inl e \<Rightarrow> Inl e | Inr ys \<Rightarrow> Inr (y # ys)))"

text \<open>
  JavaScript truthiness (\<^verbatim>\<open>!!v\<close>), \<^verbatim>\<open>a || b\<close>, and the null-or-undefined test.
  The numbers that are not true are zero and \<^verbatim>\<open>NaN\<close>.
\<close>

fun truthy :: "json \<Rightarrow> bool" where
  "truthy JUndefined = False"
| "truthy JNull = False"
| "truthy (JBool b) = b"
| "truthy (JNum r) = (r \<noteq> ''0'' \<and> r \<noteq> ''NaN'')"
| "truthy (JStr s) = (s \<noteq> [])"
| "truthy (JArr xs) = True"
| "truthy (JObj kvs) = True"
| "truthy (JFun f) = True"

definition js_or :: "json \<Rightarrow> json \<Rightarrow> json" where
  "js_or a b = (if truthy a then a else b)"

fun nullish :: "json \<Rightarrow> bool" where
  "nullish JUndefined = True"
| "nullish JNull = True"
| "nullish v = False"

fun isArray :: "json \<Rightarrow> bool" where
  "isArray (JArr xs) = True"
| "isArray v = False"

text \<open>
  \<^verbatim>\<open>v.p\<close> for a receiver that is not null or undefined, and for the property names
  this program reads (windowId, id, name, description, windowType, tabs, tabId, sequence,
  tabLevel, isReadOnly, isSingleRow, fields, fieldId, component, validation, required,
  maxLength, isDisplayed, ui, helpText, help, displayLogic, reference, values, key,
  display, value, color, icon, sortOrder, length). Of these an array has \<^verbatim>\<open>length\<close>
  and inherits \<^verbatim>\<open>values\<close>, a string has \<^verbatim>\<open>length\<close>, a function has
  \<^verbatim>\<open>name\<close> and \<^verbatim>\<open>length\<close>; every other read of a non-object gives
  \<^verbatim>\<open>undefined\<close>. A length is a count of elements, rendered as a decimal numeral.
\<close>

definition digit :: "nat \<Rightarrow> char" where
  "digit n = ''0123456789'' ! n"

fun show_nat :: "nat \<Rightarrow> string" where
  "show_nat n = (if n < 10 then [digit n] else show_nat (n div 10) @ [digit (n mod 10)])"

declare show_nat.simps [simp del]

fun propOf :: "json \<Rightarrow> string \<Rightarrow> json" where
  "propOf (JObj kvs) p = (case map_of kvs p of Some v \<Rightarrow> v | None \<Rightarrow> JUndefined)"
| "propOf (JArr xs) p =
     (if p = ''values'' then JFun ''values''
      else if p = ''length'' then JNum (show_nat (length xs)) else JUndefined)"
| "propOf (JStr s) p = (if p = ''length'' then JNum (show_nat (length s)) else JUndefined)"
| "propOf (JFun f) p =
     (if p = ''name'' then JStr f else if p = ''length'' then JNum ''0'' else JUndefined)"
| "propOf v p = JUndefined"

text \<open>\<^verbatim>\<open>v.p\<close> for any receiver: reading a property of null or undefined throws.\<close>

definition cannot_read :: "json \<Rightarrow> string \<Rightarrow> js_error" where
  "cannot_read v p =
     TypeError (''Cannot read properties of ''
       @ (if v = JNull then ''null'' else ''undefined'')
       @ '' (reading '' @ [CHR 0x27] @ p @ [CHR 0x27] @ '')'')"

definition get :: "json \<Rightarrow> string \<Rightarrow> js_error + json" where
  "get v p = (if nullish v then Inl (cannot_read v p) else Inr (propOf v p))"

text \<open>\<^verbatim>\<open>v?.p\<close>\<close>

definition opt_prop :: "json \<Rightarrow> string \<Rightarrow> json" where
  "opt_prop v p = (if nullish v then JUndefined else propOf v p)"

subsection \<open>Conversion to string\<close>

text \<open>
  \<^verbatim>\<open>String(v)\<close>, which is what a template literal \<^verbatim>\<open>`${v}`\<close> and a computed
  property key apply. A number gives its rendering. An array joins its elements with
  commas, null and undefined elements as the empty string. An object answers \<^verbatim>\<open>[object Object]\<close> through
  \<^verbatim>\<open>Object.prototype.toString\<close>, unless the document gave it an own property
  \<^verbatim>\<open>toString\<close>: that value is not callable, \<^verbatim>\<open>valueOf\<close> does not yield a
  primitive either, and the conversion throws.
\<close>

fun js_toString :: "json \<Rightarrow> js_error + string"
  and js_join :: "json list \<Rightarrow> js_error + string" where
  "js_toString JUndefined = Inr ''undefined''"
| "js_toString JNull = Inr ''null''"
| "js_toString (JBool b) = Inr (if b then ''true'' else ''false'')"
| "js_toString (JNum r) = Inr r"
| "js_toString (JStr s) = Inr s"
| "js_toString (JArr xs) = js_join xs"
| "js_toString (JObj kvs) =
     (if ''toString'' \<in> fst ` set kvs
      then Inl (TypeError ''Cannot convert object to primitive value'')
      else Inr ''[object Object]'')"
| "js_toString (JFun f) = Inr (''function '' @ f @ ''() { [native code] }'')"
| "js_join [] = Inr []"
| "js_join [x] = (if nullish x then Inr [] else js_toString x)"
| "js_join (x # y # ys) =
     (case (if nullish x then Inr [] else js_toString x) of
        Inl e \<Rightarrow> Inl e
      | Inr s \<Rightarrow> (case js_join (y # ys) of Inl e \<Rightarrow> Inl e | Inr r \<Rightarrow> Inr (s @ '','' @ r)))"

text \<open>\<^verbatim>\<open>s.endsWith(suf)\<close>\<close>

definition endsWith :: "string \<Rightarrow> string \<Rightarrow> bool" where
  "endsWith s suf = (length suf \<le> length s \<and> drop (length s - length suf) s = suf)"

text \<open>
  \<^verbatim>\<open>v.map(f)\<close> where \<open>f\<close> may throw: an array maps its elements in order and stops
  at the first throw; null and undefined have no properties; nothing else in a document
  has a callable \<^verbatim>\<open>map\<close>.
\<close>

definition not_a_function :: "string \<Rightarrow> js_error" where
  "not_a_function what = TypeError (what @ '' is not a function'')"

definition js_map :: "string \<Rightarrow> (json \<Rightarrow> js_error + 'a) \<Rightarrow> json \<Rightarrow> js_error + 'a list" where
  "js_map what f v =
     (case v of
        JArr xs \<Rightarrow> mapE f xs
      | JUndefined \<Rightarrow> Inl (cannot_read v ''map'')
      | JNull \<Rightarrow> Inl (cannot_read v ''map'')
      | _ \<Rightarrow> Inl (not_a_function (what @ ''.map'')))"

text \<open>The same, for a callback that also updates a state threaded through the calls.\<close>

fun mapS :: "('s \<Rightarrow> 'a \<Rightarrow> ('e + 'b) \<times> 's) \<Rightarrow> 's \<Rightarrow> 'a list \<Rightarrow> ('e + 'b list) \<times> 's" where
  "mapS f s [] = (Inr [], s)"
| "mapS f s (x # xs) =
     (case f s x of
        (Inl e, s1) \<Rightarrow> (Inl e, s1)
      | (Inr y, s1) \<Rightarrow>
          (case mapS f s1 xs of
             (Inl e, s2) \<Rightarrow> (Inl e, s2)
           | (Inr ys, s2) \<Rightarrow> (Inr (y # ys), s2)))"

definition js_mapS ::
  "string \<Rightarrow> ('s \<Rightarrow> json \<Rightarrow> (js_error + 'b) \<times> 's) \<Rightarrow> 's \<Rightarrow> json \<Rightarrow> (js_error + 'b list) \<times> 's" where
  "js_mapS what f s v =
     (case v of
        JArr xs \<Rightarrow> mapS f s xs
      | JUndefined \<Rightarrow> (Inl (cannot_read v ''map''), s)
      | JNull \<Rightarrow> (Inl (cannot_read v ''map''), s)
      | _ \<Rightarrow> (Inl (not_a_function (what @ ''.map'')), s))"

text \<open>\<^verbatim>\<open>v?.forEach(f)\<close>: skipped for null and undefined.\<close>

fun forEachE :: "('a \<Rightarrow> 'e + unit) \<Rightarrow> 'a list \<Rightarrow> 'e + unit" where
  "forEachE f [] = Inr ()"
| "forEachE f (x # xs) = (case f x of Inl e \<Rightarrow> Inl e | Inr u \<Rightarrow> forEachE f xs)"

definition opt_forEach :: "string \<Rightarrow> (json \<Rightarrow> js_error + unit) \<Rightarrow> json \<Rightarrow> js_error + unit" where
  "opt_forEach what f v =
     (case v of
        JArr xs \<Rightarrow> forEachE f xs
      | JUndefined \<Rightarrow> Inr ()
      | JNull \<Rightarrow> Inr ()
      | _ \<Rightarrow> Inl (not_a_function (what @ ''.forEach'')))"

fun arr_elems :: "json \<Rightarrow> json list" where
  "arr_elems (JArr xs) = xs"
| "arr_elems v = []"

section \<open>MetadataAdapter\<close>

text \<open>
  \<^verbatim>\<open>private static embeddedReferences: Map<string, any[]>\<close>: one store for the whole
  process, threaded through every adapter call.
\<close>

type_synonym ref_store = "string \<rightharpoonup> json list"

record adaptedReference =
  ref_id :: json
  ref_name :: json
  ref_validationType :: json
  ref_values :: "json list"

text \<open>
  The adapted field, without \<^verbatim>\<open>displayType\<close>, \<^verbatim>\<open>data\<close>, \<^verbatim>\<open>ui\<close> and the
  \<^verbatim>\<open>_original*\<close> copies: they are computed from the external field alone, do not
  touch the store, and the one step of their computation that can throw (converting
  \<^verbatim>\<open>component\<close> to a property key of the component table) is kept in
  \<open>adaptField\<close>.
\<close>

record adaptedField =
  f_id :: json
  f_fieldId :: json
  f_name :: json
  f_sequence :: json
  f_isMandatory :: json
  f_isReadOnly :: json
  f_isDisplayed :: bool
  f_fieldLength :: json
  f_help :: json
  f_description :: json
  f_displayLogic :: json
  f_reference :: "adaptedReference option"

record adaptedTab =
  t_id :: json
  t_tabId :: json
  t_name :: json
  t_description :: json
  t_sequence :: json
  t_tabLevel :: json
  t_isReadOnly :: json
  t_isSingleRow :: bool
  t_fields :: "adaptedField list"

text \<open>The adapted window, without its \<^verbatim>\<open>metadata\<close> (a copy plus clock readings).\<close>

record adaptedWindow =
  w_id :: json
  w_name :: json
  w_description :: json
  w_windowType :: json
  w_tabs :: "adaptedTab list"

definition EMBEDDED_REF :: string where
  "EMBEDDED_REF = ''_EMBEDDED_REF''"

definition adaptDisplayLogic :: "json \<Rightarrow> json" where
  "adaptDisplayLogic displayLogic = (if \<not> truthy displayLogic then JUndefined else JUndefined)"

text \<open>The object built for each inline value, in both branches of \<open>adaptReference\<close>.\<close>

definition convertValue :: "json \<Rightarrow> js_error + json" where
  "convertValue v =
     (if nullish v then Inl (cannot_read v ''key'')
      else Inr (JObj
        [(''key'', propOf v ''key''),
         (''value'', js_or (propOf v ''display'') (propOf v ''value'')),
         (''description'', propOf v ''description''),
         (''color'', propOf v ''color''),
         (''icon'', propOf v ''icon''),
         (''sortOrder'', propOf v ''sortOrder'')]))"

definition adaptReference ::
  "ref_store \<Rightarrow> json \<Rightarrow> json \<Rightarrow> (js_error + adaptedReference option) \<times> ref_store" where
  "adaptReference store reference fieldId =
     (if \<not> truthy reference \<or> \<not> truthy (propOf reference ''values'') then (Inr None, store)
      else if truthy (propOf reference ''id'') then
        (case js_map ''reference.values'' convertValue (propOf reference ''values'') of
           Inl e \<Rightarrow> (Inl e, store)
         | Inr vs \<Rightarrow>
             (Inr (Some \<lparr>ref_id = propOf reference ''id'',
                          ref_name = js_or (propOf reference ''name'') (JStr ''Reference''),
                          ref_validationType =
                            js_or (propOf reference ''validationType'') (JStr ''LIST''),
                          ref_values = vs\<rparr>), store))
      else
        (case js_toString fieldId of
           Inl e \<Rightarrow> (Inl e, store)
         | Inr fid \<Rightarrow>
            (let referenceId = fid @ EMBEDDED_REF in
             case js_map ''reference.values'' convertValue (propOf reference ''values'') of
               Inl e \<Rightarrow> (Inl e, store)
             | Inr convertedValues \<Rightarrow>
                (let store1 = store(referenceId \<mapsto> convertedValues) in
                 case js_map ''reference.values'' convertValue (propOf reference ''values'') of
                   Inl e \<Rightarrow> (Inl e, store1)
                 | Inr vs \<Rightarrow>
                     (Inr (Some \<lparr>ref_id = JStr referenceId,
                                  ref_name = js_or (propOf reference ''name'') (JStr ''Reference''),
                                  ref_validationType =
                                    js_or (propOf reference ''validationType'') (JStr ''LIST''),
                                  ref_values = vs\<rparr>), store1)))))"

definition getEmbeddedReferenceValues :: "ref_store \<Rightarrow> string \<Rightarrow> json list option" where
  "getEmbeddedReferenceValues store referenceId = store referenceId"

definition isEmbeddedReference :: "string \<Rightarrow> bool" where
  "isEmbeddedReference referenceId = endsWith referenceId EMBEDDED_REF"

definition clearEmbeddedReferences :: "ref_store \<Rightarrow> ref_store" where
  "clearEmbeddedReferences store = Map.empty"

definition adaptField :: "ref_store \<Rightarrow> json \<Rightarrow> (js_error + adaptedField) \<times> ref_store" where
  "adaptField store externalField =
     (if nullish externalField then (Inl (cannot_read externalField ''name''), store)
      else case js_toString (propOf externalField ''component'') of
        Inl e \<Rightarrow> (Inl e, store)
      | Inr componentKey \<Rightarrow>
         (case adaptReference store (propOf externalField ''reference'')
                 (js_or (propOf externalField ''fieldId'') (propOf externalField ''id'')) of
            (Inl e, store1) \<Rightarrow> (Inl e, store1)
          | (Inr r, store1) \<Rightarrow>
             (Inr \<lparr>f_id = js_or (propOf externalField ''fieldId'') (propOf externalField ''id''),
                   f_fieldId = js_or (propOf externalField ''fieldId'') (propOf externalField ''id''),
                   f_name = propOf externalField ''name'',
                   f_sequence = js_or (propOf externalField ''sequence'') (JNum ''10''),
                   f_isMandatory =
                     js_or (opt_prop (propOf externalField ''validation'') ''required'') (JBool False),
                   f_isReadOnly = js_or (propOf externalField ''isReadOnly'') (JBool False),
                   f_isDisplayed = (propOf externalField ''isDisplayed'' \<noteq> JBool False),
                   f_fieldLength =
                     js_or (opt_prop (propOf externalField ''validation'') ''maxLength'') (JNum ''0''),
                   f_help = js_or (opt_prop (propOf externalField ''ui'') ''helpText'')
                              (propOf externalField ''help''),
                   f_description = propOf externalField ''description'',
                   f_displayLogic = adaptDisplayLogic (propOf externalField ''displayLogic''),
                   f_reference = r\<rparr>, store1)))"

definition adaptTab :: "ref_store \<Rightarrow> json \<Rightarrow> (js_error + adaptedTab) \<times> ref_store" where
  "adaptTab store externalTab =
     (if nullish externalTab then (Inl (cannot_read externalTab ''name''), store)
      else case js_mapS ''externalTab.fields'' adaptField store (propOf externalTab ''fields'') of
        (Inl e, store1) \<Rightarrow> (Inl e, store1)
      | (Inr fs, store1) \<Rightarrow>
         (Inr \<lparr>t_id = js_or (propOf externalTab ''tabId'') (propOf externalTab ''id''),
               t_tabId = js_or (propOf externalTab ''tabId'') (propOf externalTab ''id''),
               t_name = propOf externalTab ''name'',
               t_description = propOf externalTab ''description'',
               t_sequence = js_or (propOf externalTab ''sequence'') (JNum ''10''),
               t_tabLevel = js_or (propOf externalTab ''tabLevel'') (JNum ''0''),
               t_isReadOnly = js_or (propOf externalTab ''isReadOnly'') (JBool False),
               t_isSingleRow = (propOf externalTab ''isSingleRow'' \<noteq> JBool False),
               t_fields = fs\<rparr>, store1))"

text \<open>
  \<open>debugConversion\<close> only logs, but its template literals convert values of the
  document to strings, and such a conversion can throw. The model keeps the conversions
  of the external window, in the order of the source; the values it prints from the
  adapted window are either the same values (\<^verbatim>\<open>adaptedTab.name\<close>) or cannot throw
  (array lengths, \<^verbatim>\<open>displayType\<close>) when the adapted window is the adaptation of the
  external one, which is how the adapter and the provider call it.
\<close>

definition debugField :: "json \<Rightarrow> js_error + unit" where
  "debugField extField =
     (case get extField ''name'' of
        Inl e \<Rightarrow> Inl e
      | Inr nm \<Rightarrow>
         (case js_toString nm of
            Inl e \<Rightarrow> Inl e
          | Inr s1 \<Rightarrow>
             (case js_toString (propOf extField ''component'') of
                Inl e \<Rightarrow> Inl e
              | Inr s2 \<Rightarrow>
                 (if truthy (propOf extField ''reference'') then
                    (case (if truthy (propOf (propOf extField ''reference'') ''id'')
                           then Inr (propOf (propOf extField ''reference'') ''id'')
                           else (case js_toString (propOf extField ''fieldId'') of
                                   Inl e \<Rightarrow> Inl e
                                 | Inr fid \<Rightarrow> Inr (JStr (fid @ EMBEDDED_REF)))) of
                       Inl e \<Rightarrow> Inl e
                     | Inr refId \<Rightarrow>
                        (case js_toString refId of Inl e \<Rightarrow> Inl e | Inr s3 \<Rightarrow> Inr ()))
                  else Inr ()))))"

definition debugTab :: "json \<Rightarrow> js_error + unit" where
  "debugTab extTab =
     (case get extTab ''name'' of
        Inl e \<Rightarrow> Inl e
      | Inr nm \<Rightarrow>
         (case js_toString nm of
            Inl e \<Rightarrow> Inl e
          | Inr s1 \<Rightarrow>
             (case js_toString (js_or (opt_prop (propOf extTab ''fields'') ''length'') (JNum ''0'')) of
                Inl e \<Rightarrow> Inl e
              | Inr s2 \<Rightarrow> opt_forEach ''extTab.fields'' debugField (propOf extTab ''fields''))))"

definition debugConversion :: "json \<Rightarrow> js_error + unit" where
  "debugConversion externalWindow =
     (if nullish externalWindow then Inl (cannot_read externalWindow ''windowId'')
      else opt_forEach ''externalWindow.tabs'' debugTab (propOf externalWindow ''tabs''))"

text \<open>
  \<open>adaptWindowDefinition\<close>: the first statement logs
  \<^verbatim>\<open>externalWindow.windowId || externalWindow.id\<close>, which throws for null and
  undefined before anything else happens; then the store is cleared, the tabs are
  adapted in order, and \<open>debugConversion\<close> runs.
\<close>

definition adaptWindowDefinition ::
  "ref_store \<Rightarrow> json \<Rightarrow> (js_error + adaptedWindow) \<times> ref_store" where
  "adaptWindowDefinition store externalWindow =
     (if nullish externalWindow then (Inl (cannot_read externalWindow ''windowId''), store)
      else
        (case js_mapS ''externalWindow.tabs'' adaptTab (clearEmbeddedReferences store)
                (propOf externalWindow ''tabs'') of
           (Inl e, store1) \<Rightarrow> (Inl e, store1)
         | (Inr ts, store1) \<Rightarrow>
            (case debugConversion externalWindow of
               Inl e \<Rightarrow> (Inl e, store1)
             | Inr u \<Rightarrow>
                (Inr \<lparr>w_id = js_or (propOf externalWindow ''windowId'') (propOf externalWindow ''id''),
                      w_name = propOf externalWindow ''name'',
                      w_description = propOf externalWindow ''description'',
                      w_windowType =
                        js_or (propOf externalWindow ''windowType'') (JStr ''Transaction''),
                      w_tabs = ts\<rparr>, store1))))"

subsection \<open>Vocabulary for the properties of the adapter\<close>

text \<open>
  A field carries inline reference values and no explicit reference id: the two tests
  of \<open>adaptReference\<close> that lead to the generated id.
\<close>

definition carries_inline_reference :: "json \<Rightarrow> bool" where
  "carries_inline_reference f =
     (truthy (propOf f ''reference'') \<and>
      truthy (propOf (propOf f ''reference'') ''values'') \<and>
      \<not> truthy (propOf (propOf f ''reference'') ''id''))"

text \<open>The id the adapter gives a field: \<^verbatim>\<open>externalField.fieldId || externalField.id\<close>.\<close>

definition external_field_id :: "json \<Rightarrow> json" where
  "external_field_id f = js_or (propOf f ''fieldId'') (propOf f ''id'')"

text \<open>
  The store entry a field with inline values and no reference id gives rise to: its
  generated id, with the converted inline values.
\<close>

definition from_field :: "json \<Rightarrow> string \<Rightarrow> json list \<Rightarrow> bool" where
  "from_field f k vs \<longleftrightarrow>
     carries_inline_reference f \<and>
     (\<exists>fid. js_toString (external_field_id f) = Inr fid \<and> k = fid @ ''_EMBEDDED_REF'') \<and>
     js_map ''reference.values'' convertValue (propOf (propOf f ''reference'') ''values'') = Inr vs"

text \<open>The external tabs of a document, and the external fields of a tab.\<close>

definition external_tabs :: "json \<Rightarrow> json list" where
  "external_tabs D = arr_elems (propOf D ''tabs'')"

definition external_fields :: "json \<Rightarrow> json list" where
  "external_fields t = arr_elems (propOf t ''fields'')"

definition document_fields :: "json \<Rightarrow> json list" where
  "document_fields D = concat (map external_fields (external_tabs D))"

text \<open>
  A valid external document, after the wire shape of the metadata server: an object
  with an array of tabs, each tab with an array of fields; names, components and ids
  that convert to strings (every string, number, boolean or absent property does);
  a reference, when present, with inline values that are an array of non-null entries.
\<close>

definition stringable :: "json \<Rightarrow> bool" where
  "stringable v = (\<not> isl (js_toString v))"

definition valid_reference :: "json \<Rightarrow> bool" where
  "valid_reference r =
     (\<not> truthy r \<or>
      (stringable (propOf r ''id'') \<and>
       (\<not> truthy (propOf r ''values'') \<or>
        (isArray (propOf r ''values'') \<and>
         list_all (\<lambda>v. \<not> nullish v) (arr_elems (propOf r ''values''))))))"

definition valid_field :: "json \<Rightarrow> bool" where
  "valid_field f =
     (\<not> nullish f \<and> stringable (propOf f ''name'') \<and> stringable (propOf f ''component'') \<and>
      stringable (propOf f ''fieldId'') \<and> stringable (propOf f ''id'') \<and>
      valid_reference (propOf f ''reference''))"

definition valid_tab :: "json \<Rightarrow> bool" where
  "valid_tab t =
     (\<not> nullish t \<and> stringable (propOf t ''name'') \<and> isArray (propOf t ''fields'') \<and>
      list_all valid_field (external_fields t))"

definition valid_document :: "json \<Rightarrow> bool" where
  "valid_document D =
     (\<not> nullish D \<and> isArray (propOf D ''tabs'') \<and> list_all valid_tab (external_tabs D))"

subsection \<open>Example documents\<close>

text \<open>
  A window with one tab and three fields: a select field with inline values and no
  reference id, a field whose reference has an id and inline values, and a field whose
  reference has an id only.
\<close>

definition inspection_values :: json where
  "inspection_values =
     JArr [JObj [(''key'', JStr ''OK''), (''display'', JStr ''Pass'')],
           JObj [(''key'', JStr ''NOK''), (''value'', JStr ''Fail'')]]"

definition inspection_window :: json where
  "inspection_window =
     JObj [(''windowId'', JStr ''EQUIP_INSPECTION''), (''name'', JStr ''Equipment Inspection''),
       (''tabs'', JArr [JObj [(''tabId'', JStr ''MAIN''), (''name'', JStr ''Main''),
          (''fields'', JArr [
             JObj [(''fieldId'', JStr ''status''), (''name'', JStr ''Status''),
                   (''component'', JStr ''SelectField''),
                   (''reference'', JObj [(''values'', inspection_values)])],
             JObj [(''fieldId'', JStr ''result''), (''name'', JStr ''Result''),
                   (''component'', JStr ''SelectField''),
                   (''reference'', JObj [(''id'', JStr ''RESULT_LIST''),
                                         (''values'', inspection_values)])],
             JObj [(''fieldId'', JStr ''country''), (''name'', JStr ''Country''),
                   (''component'', JStr ''SelectField''),
                   (''reference'', JObj [(''id'', JStr ''C_Country'')])]])]])]"

text \<open>A store left behind by the adaptation of some other document.\<close>

definition stale_store :: ref_store where
  "stale_store = [''stale_EMBEDDED_REF'' \<mapsto> [JObj [(''key'', JStr ''X'')]]]"

text \<open>A window whose only field has neither \<^verbatim>\<open>fieldId\<close> nor \<^verbatim>\<open>id\<close>.\<close>

definition anonymous_field_window :: json where
  "anonymous_field_window =
     JObj [(''windowId'', JStr ''W''), (''name'', JStr ''Window''),
       (''tabs'', JArr [JObj [(''tabId'', JStr ''T''), (''name'', JStr ''Tab''),
          (''fields'', JArr [JObj [(''name'', JStr ''Notes''), (''component'', JStr ''TextField'')]])]])]"


text \<open>A window without a tabs array.\<close>

definition tabless_window :: json where
  "tabless_window = JObj [(''windowId'', JStr ''W''), (''name'', JStr ''Window'')]"

section \<open>JSONFileDataProvider\<close>

text \<open>
  One entry of the diagnostic log. The source also stores a clock reading and the
  stringified \<^verbatim>\<open>data\<close> argument; neither is read by the provider again.
\<close>

record ImportDiagnostics =
  stage :: string
  success :: bool
  details :: string

text \<open>
  A \<^verbatim>\<open>Map\<close> is a list of key-value pairs in insertion order. \<^verbatim>\<open>Map.prototype.set\<close>
  updates the entry in place when the key is present and appends one otherwise
  (\<open>AList.update\<close>). Keys that are primitive values are compared by value; an array or
  an object is the same key only when it is the same object, and the arrays and objects
  that this provider uses as keys are taken from a document that the parser has just
  created, where each occurs once: such a key is never present, and its entry is
  appended.
\<close>

definition Map_set :: "json \<Rightarrow> 'v \<Rightarrow> (json \<times> 'v) list \<Rightarrow> (json \<times> 'v) list" where
  "Map_set k v m =
     (case k of
        JArr xs \<Rightarrow> m @ [(k, v)]
      | JObj ps \<Rightarrow> m @ [(k, v)]
      | _ \<Rightarrow> AList.update k v m)"

text \<open>The provider's private fields.\<close>

record JSONFileDataProvider =
  windowData :: "(json \<times> adaptedWindow) list"
  referenceData :: "(json \<times> json) list"
  formData :: "(string \<times> json) list"
  importedTemplate :: "json option"
  importTimestamp :: "string option"
  importDiagnostics :: "ImportDiagnostics list"

text \<open>
  What the import reads from outside the program: the file system
  (\<^verbatim>\<open>FileSystem.readAsStringAsync\<close>), the JSON parser and the clock.
\<close>

record platform =
  readAsStringAsync :: "string \<Rightarrow> js_error + string"
  JSON_parse :: "string \<Rightarrow> js_error + json"
  toISOString_now :: string

definition logDiagnostic ::
  "JSONFileDataProvider \<Rightarrow> string \<Rightarrow> bool \<Rightarrow> string \<Rightarrow> JSONFileDataProvider" where
  "logDiagnostic p stg ok det =
     p\<lparr>importDiagnostics := importDiagnostics p @ [\<lparr>stage = stg, success = ok, details = det\<rparr>]\<rparr>"

definition logError :: "JSONFileDataProvider \<Rightarrow> string \<Rightarrow> js_error \<Rightarrow> JSONFileDataProvider" where
  "logError p stg error =
     logDiagnostic p stg False
       (''Error: '' @ (if message error \<noteq> [] then message error else ''Unknown error''))"

text \<open>The constructor.\<close>

definition new_JSONFileDataProvider :: JSONFileDataProvider where
  "new_JSONFileDataProvider =
     logDiagnostic
       \<lparr>windowData = [], referenceData = [], formData = [], importedTemplate = None,
        importTimestamp = None, importDiagnostics = []\<rparr>
       ''initialization'' True ''JSONFileDataProvider v2.0 initialized''"

definition validateFileAccess :: "JSONFileDataProvider \<Rightarrow> string \<Rightarrow> JSONFileDataProvider" where
  "validateFileAccess p fileUri =
     logDiagnostic p ''file_access_check'' True (''Checking file accessibility: '' @ fileUri)"

text \<open>
  \<^verbatim>\<open>if (providedContent)\<close>: content that is absent or the empty string is not used,
  and the file is read instead.
\<close>

definition readFileContent ::
  "platform \<Rightarrow> JSONFileDataProvider \<Rightarrow> string \<Rightarrow> string option
     \<Rightarrow> (js_error + string) \<times> JSONFileDataProvider" where
  "readFileContent pf p fileUri providedContent =
     (case providedContent of
        Some c \<Rightarrow>
          (if c \<noteq> [] then (Inr c, logDiagnostic p ''content_reading'' True ''Using provided JSON content'')
           else
             (let p1 = logDiagnostic p ''content_reading'' True ''Reading JSON content from file system'' in
              case readAsStringAsync pf fileUri of
                Inr rawJson \<Rightarrow>
                  (Inr rawJson, logDiagnostic p1 ''content_reading'' True ''Successfully read file content'')
              | Inl error \<Rightarrow>
                  (Inl (Error (''Cannot read JSON file: '' @ message error)),
                   logError p1 ''content_reading'' error)))
      | None \<Rightarrow>
          (let p1 = logDiagnostic p ''content_reading'' True ''Reading JSON content from file system'' in
           case readAsStringAsync pf fileUri of
             Inr rawJson \<Rightarrow>
               (Inr rawJson, logDiagnostic p1 ''content_reading'' True ''Successfully read file content'')
           | Inl error \<Rightarrow>
               (Inl (Error (''Cannot read JSON file: '' @ message error)),
                logError p1 ''content_reading'' error)))"

text \<open>
  The data logged after a successful parse starts with \<^verbatim>\<open>Object.keys(templateData)\<close>,
  which throws for \<^verbatim>\<open>null\<close>, inside the \<^verbatim>\<open>try\<close>.
\<close>

definition parseJSONContent ::
  "platform \<Rightarrow> JSONFileDataProvider \<Rightarrow> string \<Rightarrow> (js_error + json) \<times> JSONFileDataProvider" where
  "parseJSONContent pf p rawJson =
     (let p1 = logDiagnostic p ''json_parsing'' True ''Starting JSON parsing'' in
      case JSON_parse pf rawJson of
        Inl error \<Rightarrow>
          (Inl (Error (''Invalid JSON format: '' @ message error)), logError p1 ''json_parsing'' error)
      | Inr templateData \<Rightarrow>
          (if nullish templateData then
             (Inl (Error (''Invalid JSON format: '' @ ''Cannot convert undefined or null to object'')),
              logError p1 ''json_parsing'' (TypeError ''Cannot convert undefined or null to object''))
           else (Inr templateData, logDiagnostic p1 ''json_parsing'' True ''JSON parsing successful'')))"

text \<open>
  The loop over the tabs of \<open>validateTemplateStructure\<close>: the indices of the tabs
  without an id or without a fields array. Reading \<^verbatim>\<open>tab.tabId\<close> of a null tab throws.
\<close>

fun invalidTabs :: "json list \<Rightarrow> nat \<Rightarrow> js_error + nat list" where
  "invalidTabs [] i = Inr []"
| "invalidTabs (tab # tabs) i =
     (if nullish tab then Inl (cannot_read tab ''tabId'')
      else case invalidTabs tabs (Suc i) of
        Inl e \<Rightarrow> Inl e
      | Inr bad \<Rightarrow>
          Inr (if \<not> truthy (js_or (propOf tab ''tabId'') (propOf tab ''id'')) \<or>
                  \<not> (truthy (propOf tab ''fields'') \<and> isArray (propOf tab ''fields''))
               then i # bad else bad))"

definition validateTemplateStructure ::
  "JSONFileDataProvider \<Rightarrow> json \<Rightarrow> (js_error + unit) \<times> JSONFileDataProvider" where
  "validateTemplateStructure p template =
     (let p1 = logDiagnostic p ''structure_validation'' True ''Starting template structure validation'' in
      if nullish template then (Inl (cannot_read template ''windowId''), p1)
      else if \<not> truthy (js_or (propOf template ''windowId'') (propOf template ''id'')) then
        (Inl (Error ''Template missing required windowId or id field''),
         logDiagnostic p1 ''structure_validation'' False ''Missing required windowId or id field'')
      else if \<not> truthy (propOf template ''name'') then
        (Inl (Error ''Template missing required name field''),
         logDiagnostic p1 ''structure_validation'' False ''Missing required name field'')
      else if \<not> (truthy (propOf template ''tabs'') \<and> isArray (propOf template ''tabs'')) then
        (Inl (Error ''Template missing required tabs array''),
         logDiagnostic p1 ''structure_validation'' False ''Missing or invalid tabs array'')
      else
        (case invalidTabs (arr_elems (propOf template ''tabs'')) 0 of
           Inl e \<Rightarrow> (Inl e, p1)
         | Inr bad \<Rightarrow>
             (if bad \<noteq> [] then
                (Inl (Error (show_nat (length bad) @ '' tabs have invalid structure'')),
                 logDiagnostic p1 ''structure_validation'' False ''Invalid tab structures found'')
              else
                (Inr (),
                 logDiagnostic p1 ''structure_validation'' True
                   ''Template structure validation successful''))))"

text \<open>
  \<^verbatim>\<open>name.toUpperCase().replace(/[^A-Z0-9]/g, '_')\<close>. Upper-casing is by code
  unit and can leave the range of \<open>char\<close>, so its result is a list of code units as
  numbers: of the units below 256, the letters a to z (97 to 122) and the accented
  letters U+00E0 to U+00FE other than the division sign U+00F7 move down by 32, the
  micro sign U+00B5 becomes the Greek capital mu U+039C, the sharp s U+00DF becomes
  the two letters SS, y with diaeresis U+00FF becomes U+0178, and every other unit
  is unchanged. The replacement then keeps the units of A to Z (65 to 90) and of 0 to
  9 (48 to 57) and writes an underscore for each other unit.
\<close>

definition toUpperCase_unit :: "char \<Rightarrow> nat list" where
  "toUpperCase_unit c =
     (let n = of_char c in
      if 97 \<le> n \<and> n \<le> 122 then [n - 32]
      else if n = 181 then [924]
      else if n = 223 then [83, 83]
      else if 224 \<le> n \<and> n \<le> 254 \<and> n \<noteq> 247 then [n - 32]
      else if n = 255 then [376]
      else [n])"

definition toUpperCase :: "string \<Rightarrow> nat list" where
  "toUpperCase s = concat (map toUpperCase_unit s)"

definition replace_non_A_Z_0_9 :: "nat list \<Rightarrow> string" where
  "replace_non_A_Z_0_9 us =
     map (\<lambda>u. if (65 \<le> u \<and> u \<le> 90) \<or> (48 \<le> u \<and> u \<le> 57) then char_of u else CHR ''_'') us"

definition slug :: "string \<Rightarrow> string" where
  "slug nm = replace_non_A_Z_0_9 (toUpperCase nm)"

definition extractAndAnalyzeWindowId ::
  "JSONFileDataProvider \<Rightarrow> json \<Rightarrow> (js_error + json) \<times> JSONFileDataProvider" where
  "extractAndAnalyzeWindowId p template =
     (let p1 = logDiagnostic p ''windowid_extraction'' True ''Starting windowId extraction and analysis'' in
      if nullish template then (Inl (cannot_read template ''windowId''), p1)
      else
        (case (if truthy (propOf template ''windowId'') then Inr (propOf template ''windowId'')
               else if truthy (propOf template ''id'') then Inr (propOf template ''id'')
               else if truthy (propOf template ''name'') then
                 (case propOf template ''name'' of
                    JStr nm \<Rightarrow> Inr (JStr (slug nm))
                  | _ \<Rightarrow> Inl (not_a_function ''template.name.toUpperCase''))
               else Inr JNull) of
           Inl e \<Rightarrow> (Inl e, p1)
         | Inr extractedWindowId \<Rightarrow>
             (if \<not> truthy extractedWindowId then
                (Inl (Error ''Cannot determine windowId from template''),
                 logDiagnostic p1 ''windowid_extraction'' False ''Unable to extract or generate windowId'')
              else
                (Inr extractedWindowId,
                 logDiagnostic
                   (logDiagnostic p1 ''windowid_extraction'' True ''WindowId extraction successful'')
                   ''windowid_analysis'' True ''WindowId compatibility analysis''))))"

definition adaptTemplateToADFormat ::
  "ref_store \<Rightarrow> JSONFileDataProvider \<Rightarrow> json \<Rightarrow> json
     \<Rightarrow> (js_error + adaptedWindow) \<times> ref_store \<times> JSONFileDataProvider" where
  "adaptTemplateToADFormat store p template windowId =
     (let p1 = logDiagnostic p ''metadata_adaptation'' True ''Starting MetadataAdapter conversion'' in
      case adaptWindowDefinition store template of
        (Inr adaptedWindow, store1) \<Rightarrow>
          (Inr adaptedWindow, store1,
           logDiagnostic p1 ''metadata_adaptation'' True ''MetadataAdapter conversion successful'')
      | (Inl error, store1) \<Rightarrow>
          (Inl (Error (''MetadataAdapter failed: '' @ message error)), store1,
           logError p1 ''metadata_adaptation'' error))"

definition storeImportedData ::
  "platform \<Rightarrow> JSONFileDataProvider \<Rightarrow> json \<Rightarrow> adaptedWindow \<Rightarrow> JSONFileDataProvider" where
  "storeImportedData pf p template adaptedWindow =
     (let p1 = logDiagnostic p ''data_storage'' True ''Storing imported template data'';
          p2 = p1\<lparr>importedTemplate := Some template,
                  importTimestamp := Some (toISOString_now pf),
                  windowData := Map_set (w_id adaptedWindow) adaptedWindow (windowData p1)\<rparr>
      in logDiagnostic p2 ''data_storage'' True ''Data storage successful'')"

text \<open>
  \<^verbatim>\<open>for (const x of v)\<close>: an array gives its elements, a string its characters;
  nothing else in a document is iterable.
\<close>

definition not_iterable :: "string \<Rightarrow> js_error" where
  "not_iterable what = TypeError (what @ '' is not iterable'')"

definition iterate :: "string \<Rightarrow> json \<Rightarrow> js_error + json list" where
  "iterate what v =
     (case v of
        JArr xs \<Rightarrow> Inr xs
      | JStr s \<Rightarrow> Inr (map (\<lambda>c. JStr [c]) s)
      | _ \<Rightarrow> Inl (not_iterable what))"

text \<open>
  The body of the loop of \<open>extractReferenceData\<close> for one field. The values are stored
  first; the id under which they are stored and their \<^verbatim>\<open>length\<close> are then logged in a
  template literal, which converts both to strings.
\<close>

definition extractFieldReference ::
  "(json \<times> json) list \<Rightarrow> json \<Rightarrow> (js_error + unit) \<times> (json \<times> json) list" where
  "extractFieldReference refs field =
     (if nullish field then (Inl (cannot_read field ''reference''), refs)
      else if truthy (propOf field ''reference'') \<and>
              truthy (propOf (propOf field ''reference'') ''values'') then
        (case (if truthy (propOf (propOf field ''reference'') ''id'')
               then Inr (propOf (propOf field ''reference'') ''id'')
               else (case js_toString (propOf field ''fieldId'') of
                       Inl e \<Rightarrow> Inl e
                     | Inr fid \<Rightarrow> Inr (JStr (''REF_'' @ fid)))) of
           Inl e \<Rightarrow> (Inl e, refs)
         | Inr refId \<Rightarrow>
             (let refs1 = Map_set refId (propOf (propOf field ''reference'') ''values'') refs in
              case js_toString refId of
                Inl e \<Rightarrow> (Inl e, refs1)
              | Inr s \<Rightarrow>
                  (case js_toString (propOf (propOf (propOf field ''reference'') ''values'') ''length'') of
                     Inl e \<Rightarrow> (Inl e, refs1)
                   | Inr n \<Rightarrow> (Inr (), refs1))))
      else (Inr (), refs))"

definition extractTabReferences ::
  "(json \<times> json) list \<Rightarrow> json \<Rightarrow> (js_error + unit) \<times> (json \<times> json) list" where
  "extractTabReferences refs tab =
     (case get tab ''fields'' of
        Inl e \<Rightarrow> (Inl e, refs)
      | Inr flds \<Rightarrow>
          (case iterate ''tab.fields'' flds of
             Inl e \<Rightarrow> (Inl e, refs)
           | Inr fs \<Rightarrow>
               (case mapS extractFieldReference refs fs of
                  (Inl e, refs1) \<Rightarrow> (Inl e, refs1)
                | (Inr us, refs1) \<Rightarrow> (Inr (), refs1))))"

definition extractReferenceData ::
  "JSONFileDataProvider \<Rightarrow> json \<Rightarrow> (js_error + unit) \<times> JSONFileDataProvider" where
  "extractReferenceData p template =
     (let p1 = logDiagnostic p ''reference_extraction'' True ''Starting reference data extraction'' in
      case get template ''tabs'' of
        Inl e \<Rightarrow> (Inl e, p1)
      | Inr tbs \<Rightarrow>
          (case iterate ''template.tabs'' tbs of
             Inl e \<Rightarrow> (Inl e, p1)
           | Inr ts \<Rightarrow>
               (case mapS extractTabReferences (referenceData p1) ts of
                  (Inl e, refs1) \<Rightarrow> (Inl e, p1\<lparr>referenceData := refs1\<rparr>)
                | (Inr us, refs1) \<Rightarrow>
                    (Inr (),
                     logDiagnostic (p1\<lparr>referenceData := refs1\<rparr>) ''reference_extraction'' True
                       ''Reference data extraction complete''))))"

text \<open>The eight stages inside the \<^verbatim>\<open>try\<close> block of \<open>importJSONTemplate\<close>.\<close>

definition import_stages ::
  "platform \<Rightarrow> ref_store \<Rightarrow> JSONFileDataProvider \<Rightarrow> string \<Rightarrow> string option
     \<Rightarrow> (js_error + bool) \<times> ref_store \<times> JSONFileDataProvider" where
  "import_stages pf store p fileUri jsonContent =
     (case readFileContent pf (validateFileAccess p fileUri) fileUri jsonContent of
        (Inl e, p2) \<Rightarrow> (Inl e, store, p2)
      | (Inr rawJson, p2) \<Rightarrow>
     (case parseJSONContent pf p2 rawJson of
        (Inl e, p3) \<Rightarrow> (Inl e, store, p3)
      | (Inr templateData, p3) \<Rightarrow>
     (case validateTemplateStructure p3 templateData of
        (Inl e, p4) \<Rightarrow> (Inl e, store, p4)
      | (Inr u, p4) \<Rightarrow>
     (case extractAndAnalyzeWindowId p4 templateData of
        (Inl e, p5) \<Rightarrow> (Inl e, store, p5)
      | (Inr extractedWindowId, p5) \<Rightarrow>
     (case adaptTemplateToADFormat store p5 templateData extractedWindowId of
        (Inl e, store6, p6) \<Rightarrow> (Inl e, store6, p6)
      | (Inr adaptedWindow, store6, p6) \<Rightarrow>
     (case extractReferenceData (storeImportedData pf p6 templateData adaptedWindow) templateData of
        (Inl e, p8) \<Rightarrow> (Inl e, store6, p8)
      | (Inr u, p8) \<Rightarrow>
     (case js_toString extractedWindowId of
        Inl e \<Rightarrow> (Inl e, store6, p8)
      | Inr wid \<Rightarrow>
          (Inr True, store6,
           logDiagnostic p8 ''import_complete'' True
             (''Successfully imported template: '' @ wid)))))))))"

text \<open>
  \<open>importJSONTemplate\<close>: the log is emptied, the stages run, and whatever one of them
  throws is caught once: it is logged as \<open>import_failed\<close> and a new \<^verbatim>\<open>Error\<close> that
  carries the message is thrown to the caller.
\<close>

definition importJSONTemplate ::
  "platform \<Rightarrow> ref_store \<Rightarrow> JSONFileDataProvider \<Rightarrow> string \<Rightarrow> string option
     \<Rightarrow> (js_error + bool) \<times> ref_store \<times> JSONFileDataProvider" where
  "importJSONTemplate pf store p fileUri jsonContent =
     (case import_stages pf store
             (logDiagnostic (p\<lparr>importDiagnostics := []\<rparr>) ''import_start'' True
                (''Starting JSON template import from: '' @ fileUri))
             fileUri jsonContent of
        (Inl error, store1, p1) \<Rightarrow>
          (Inl (Error (''Failed to import JSON template: '' @ message error)), store1,
           logError p1 ''import_failed'' error)
      | (Inr b, store1, p1) \<Rightarrow> (Inr b, store1, p1))"

definition getImportDiagnostics :: "JSONFileDataProvider \<Rightarrow> ImportDiagnostics list" where
  "getImportDiagnostics p = importDiagnostics p"

text \<open>\<open>isConnected\<close> is asynchronous: its promise resolves (\<open>Inr\<close>) or rejects (\<open>Inl\<close>).\<close>

definition isConnected :: "JSONFileDataProvider \<Rightarrow> js_error + bool" where
  "isConnected p = Inr (length (windowData p) > 0)"

definition clearImportedData :: "JSONFileDataProvider \<Rightarrow> JSONFileDataProvider" where
  "clearImportedData p =
     p\<lparr>windowData := [], referenceData := [], formData := [], importedTemplate := None,
       importTimestamp := None, importDiagnostics := []\<rparr>"

text \<open>
  The message of the first check of \<open>validateTemplateStructure\<close> that a template
  without a tabs array fails.
\<close>

definition lacks_tabs_message :: "json \<Rightarrow> string" where
  "lacks_tabs_message t =
     (if \<not> truthy (js_or (propOf t ''windowId'') (propOf t ''id''))
      then ''Template missing required windowId or id field''
      else if \<not> truthy (propOf t ''name'') then ''Template missing required name field''
      else ''Template missing required tabs array'')"

subsection \<open>Example imports\<close>

text \<open>A platform without files whose parser yields the given document for any text.\<close>

definition platform_yielding :: "json \<Rightarrow> platform" where
  "platform_yielding doc =
     \<lparr>readAsStringAsync = (\<lambda>uri. Inl (Error ''File not found'')),
      JSON_parse = (\<lambda>raw. Inr doc),
      toISOString_now = ''2025-01-01T00:00:00.000Z''\<rparr>"

text \<open>The document \<^verbatim>\<open>{ name: "Site Audit" }\<close>.\<close>

definition site_audit_example :: json where
  "site_audit_example = JObj [(''name'', JStr ''Site Audit'')]"

text \<open>A template with a name and a tabs array, and neither \<^verbatim>\<open>windowId\<close> nor \<^verbatim>\<open>id\<close>.\<close>

definition site_audit_template :: json where
  "site_audit_template =
     JObj [(''name'', JStr ''Site Audit''),
       (''tabs'', JArr [JObj [(''tabId'', JStr ''MAIN''), (''name'', JStr ''Main''),
          (''fields'', JArr [JObj [(''fieldId'', JStr ''notes''), (''name'', JStr ''Notes''),
                                   (''component'', JStr ''TextField'')]])]])]"

section \<open>ExternalMetadataProvider\<close>

text \<open>
  What the cache holds under a key: an adapted window (keys \<open>window_<id>\<close>) or a list
  of reference values (keys \<open>ref_<id>\<close>), with the clock reading of the moment it was
  stored.
\<close>

datatype cached = CachedWindow adaptedWindow | CachedValues json

record cache_entry =
  data :: cached
  timestamp :: int

record ExternalMetadataProvider =
  baseUrl :: string
  cache :: "(string \<times> cache_entry) list"
  cacheTimeout :: int

text \<open>
  An HTTP response as the provider reads it: \<^verbatim>\<open>ok\<close>, \<^verbatim>\<open>status\<close> (an unsigned
  16-bit integer), \<^verbatim>\<open>statusText\<close>, and the outcome of \<^verbatim>\<open>response.json()\<close>.
  \<^verbatim>\<open>fetch\<close> itself resolves to a response or rejects.
\<close>

record http_response =
  ok :: bool
  status :: "16 word"
  statusText :: string
  json_body :: "js_error + json"

type_synonym fetcher = "string \<Rightarrow> js_error + http_response"

definition new_ExternalMetadataProvider :: "string \<Rightarrow> ExternalMetadataProvider" where
  "new_ExternalMetadataProvider url = \<lparr>baseUrl = url, cache = [], cacheTimeout = 5 * 60 * 1000\<rparr>"

text \<open>The test both getters apply to a cache entry: \<^verbatim>\<open>Date.now() - cached.timestamp < this.cacheTimeout\<close>.\<close>

definition cache_hit :: "ExternalMetadataProvider \<Rightarrow> int \<Rightarrow> string \<Rightarrow> cache_entry option" where
  "cache_hit p now cacheKey =
     (case map_of (cache p) cacheKey of
        Some e \<Rightarrow> (if now - timestamp e < cacheTimeout p then Some e else None)
      | None \<Rightarrow> None)"



text \<open>
  \<open>getReferenceValues\<close> never throws: a reference that is not found, a response that is
  not ok and any failure of the request give the empty list, which is not cached. The
  fetched values are stored in the cache and their \<^verbatim>\<open>length\<close> is then logged in a
  template literal, inside the \<^verbatim>\<open>try\<close>: a length that cannot be converted to a string
  makes the call answer the empty list with the fetched values already stored.
\<close>

definition getReferenceValues ::
  "fetcher \<Rightarrow> int \<Rightarrow> int \<Rightarrow> ref_store \<Rightarrow> ExternalMetadataProvider \<Rightarrow> string
     \<Rightarrow> (js_error + cached) \<times> string list \<times> ref_store \<times> ExternalMetadataProvider" where
  "getReferenceValues fetch now later store p referenceId =
     (case cache_hit p now (''ref_'' @ referenceId) of
        Some e \<Rightarrow> (Inr (data e), [], store, p)
      | None \<Rightarrow>
         (if isEmbeddedReference referenceId then
            (case getEmbeddedReferenceValues store referenceId of
               Some embeddedValues \<Rightarrow>
                 (Inr (CachedValues (JArr embeddedValues)), [], store,
                  p\<lparr>cache := AList.update (''ref_'' @ referenceId)
                      \<lparr>data = CachedValues (JArr embeddedValues), timestamp = later\<rparr> (cache p)\<rparr>)
             | None \<Rightarrow> (Inr (CachedValues (JArr [])), [], store, p))
          else
            (case fetch (baseUrl p @ ''/references/'' @ referenceId) of
               Inl error \<Rightarrow>
                 (Inr (CachedValues (JArr [])), [baseUrl p @ ''/references/'' @ referenceId], store, p)
             | Inr response \<Rightarrow>
                (if \<not> ok response then
                   (Inr (CachedValues (JArr [])),
                    [baseUrl p @ ''/references/'' @ referenceId], store, p)
                 else
                   (case json_body response of
                      Inl error \<Rightarrow>
                        (Inr (CachedValues (JArr [])),
                         [baseUrl p @ ''/references/'' @ referenceId], store, p)
                    | Inr refData \<Rightarrow>
                       (if nullish refData then
                          (Inr (CachedValues (JArr [])),
                           [baseUrl p @ ''/references/'' @ referenceId], store, p)
                        else
                          (let values = js_or (propOf refData ''values'') (JArr []);
                               p1 = p\<lparr>cache := AList.update (''ref_'' @ referenceId)
                                        \<lparr>data = CachedValues values, timestamp = later\<rparr> (cache p)\<rparr>
                           in case js_toString (propOf values ''length'') of
                                Inl error \<Rightarrow>
                                  (Inr (CachedValues (JArr [])),
                                   [baseUrl p @ ''/references/'' @ referenceId], store, p1)
                              | Inr n \<Rightarrow>
                                  (Inr (CachedValues values),
                                   [baseUrl p @ ''/references/'' @ referenceId], store, p1))))))))"

text \<open>The health check: any failure of the request is caught and reported as not connected.\<close>

definition isConnected_external :: "fetcher \<Rightarrow> ExternalMetadataProvider \<Rightarrow> js_error + bool" where
  "isConnected_external fetch p =
     (case fetch (baseUrl p @ ''/health'') of
        Inl error \<Rightarrow> Inr False
      | Inr response \<Rightarrow> Inr (ok response))"

section \<open>useConnectionMonitor\<close>

datatype connection_status = connected | cached_status | offline | error_status

record monitor =
  connectionStatus :: connection_status
  lastSuccessfulFetch :: "string option"

text \<open>\<^verbatim>\<open>useState('offline')\<close>, \<^verbatim>\<open>useState(undefined)\<close>\<close>

definition initial_monitor :: monitor where
  "initial_monitor = \<lparr>connectionStatus = offline, lastSuccessfulFetch = None\<rparr>"

text \<open>
  One run of \<open>checkConnection\<close>. The hook sees the provider through the outcome of
  \<^verbatim>\<open>await provider.isConnected()\<close> (a boolean, or a rejection) and through
  \<^verbatim>\<open>provider.cache\<close>: the number of entries of the cache, when the provider has one.
  \<open>timeString\<close> is \<^verbatim>\<open>new Date().toLocaleTimeString()\<close>.
\<close>

definition cache_not_empty :: "nat option \<Rightarrow> bool" where
  "cache_not_empty c = (case c of Some n \<Rightarrow> n > 0 | None \<Rightarrow> False)"

definition checkConnection ::
  "string \<Rightarrow> (js_error + bool) \<Rightarrow> nat option \<Rightarrow> string \<Rightarrow> monitor \<Rightarrow> monitor" where
  "checkConnection providerType isConnectedOutcome providerCache timeString m =
     (if providerType = ''MockDataProvider'' then
        m\<lparr>connectionStatus := connected, lastSuccessfulFetch := Some ''Demo Data''\<rparr>
      else if providerType = ''JSONFileDataProvider'' then
        m\<lparr>connectionStatus := connected, lastSuccessfulFetch := Some ''Imported Template''\<rparr>
      else if providerType = ''ExternalMetadataProvider'' then
        (case isConnectedOutcome of
           Inr isConn \<Rightarrow>
             (if isConn then
                m\<lparr>connectionStatus := connected, lastSuccessfulFetch := Some timeString\<rparr>
              else if cache_not_empty providerCache then m\<lparr>connectionStatus := cached_status\<rparr>
              else m\<lparr>connectionStatus := offline\<rparr>)
         | Inl connectionError \<Rightarrow>
             (if cache_not_empty providerCache then m\<lparr>connectionStatus := cached_status\<rparr>
              else m\<lparr>connectionStatus := error_status\<rparr>))
      else m\<lparr>connectionStatus := error_status\<rparr>)"

text \<open>A poll of the External provider itself: its health check and its cache.\<close>

definition poll_external ::
  "fetcher \<Rightarrow> ExternalMetadataProvider \<Rightarrow> string \<Rightarrow> monitor \<Rightarrow> monitor" where
  "poll_external fetch p timeString m =
     checkConnection ''ExternalMetadataProvider'' (isConnected_external fetch p)
       (Some (length (cache p))) timeString m"

subsection \<open>Example provider states\<close>



definition unreachable_server :: fetcher where
  "unreachable_server url = Inl (TypeError ''Network request failed'')"


definition unprintable_length :: json where
  "unprintable_length = JObj [(''length'', JObj [(''toString'', JNum ''1'')])]"

definition unprintable_length_server :: fetcher where
  "unprintable_length_server url =
     Inr \<lparr>ok = True, status = 200, statusText = ''OK'',
         json_body = Inr (JObj [(''values'', unprintable_length)])\<rparr>"

section \<open>Properties\<close>

subsection \<open>Lists, errors and threaded state\<close>


lemma mapS_list_all2:
  "mapS f s xs = (Inr ys, s') \<Longrightarrow> list_all2 (\<lambda>x y. \<exists>s1 s2. f s1 x = (Inr y, s2)) xs ys"
proof (induction xs arbitrary: s ys)
  case Nil
  then show ?case by simp
next
  case (Cons x xs)
  then show ?case
    by (auto split: prod.splits sum.splits)
qed

lemma mapS_invariant:
  assumes step: "\<And>s x r s'. x \<in> set xs \<Longrightarrow> P s \<Longrightarrow> f s x = (r, s') \<Longrightarrow> P s'"
    and "P s" and "mapS f s xs = (r, s')"
  shows "P s'"
  using assms
proof (induction xs arbitrary: s r s')
  case Nil
  then show ?case by simp
next
  case (Cons x xs)
  obtain r1 s1 where fx: "f s x = (r1, s1)" by (cases "f s x")
  have P1: "P s1" using Cons.prems(1)[OF _ Cons.prems(2) fx] by simp
  have step': "\<And>s x r s'. x \<in> set xs \<Longrightarrow> P s \<Longrightarrow> f s x = (r, s') \<Longrightarrow> P s'"
    using Cons.prems(1) by auto
  show ?case
  proof (cases r1)
    case (Inl e)
    with Cons.prems(3) fx have "s' = s1" by simp
    with P1 show ?thesis by simp
  next
    case (Inr y)
    obtain r2 s2 where rest: "mapS f s1 xs = (r2, s2)" by (cases "mapS f s1 xs")
    have "P s2" using Cons.IH[OF step' P1 rest] .
    moreover have "s' = s2" using Cons.prems(3) fx Inr rest by (auto split: sum.splits)
    ultimately show ?thesis by simp
  qed
qed

lemma adaptReference_cases:
  "adaptReference s r fid = (Inr ro, s') \<Longrightarrow>
     (\<not> truthy r \<or> \<not> truthy (propOf r ''values'')) \<and> ro = None \<and> s' = s
   \<or> (truthy r \<and> truthy (propOf r ''values'') \<and> truthy (propOf r ''id'') \<and> s' = s \<and>
       (\<exists>vs. js_map ''reference.values'' convertValue (propOf r ''values'') = Inr vs \<and>
         ro = Some \<lparr>ref_id = propOf r ''id'',
                     ref_name = js_or (propOf r ''name'') (JStr ''Reference''),
                     ref_validationType = js_or (propOf r ''validationType'') (JStr ''LIST''),
                     ref_values = vs\<rparr>))
   \<or> (truthy r \<and> truthy (propOf r ''values'') \<and> \<not> truthy (propOf r ''id'') \<and>
       (\<exists>vs f. js_map ''reference.values'' convertValue (propOf r ''values'') = Inr vs \<and>
         js_toString fid = Inr f \<and> s' = s(f @ EMBEDDED_REF \<mapsto> vs) \<and>
         ro = Some \<lparr>ref_id = JStr (f @ EMBEDDED_REF),
                     ref_name = js_or (propOf r ''name'') (JStr ''Reference''),
                     ref_validationType = js_or (propOf r ''validationType'') (JStr ''LIST''),
                     ref_values = vs\<rparr>))"
  unfolding adaptReference_def
  by (auto split: if_splits sum.splits simp: Let_def)

lemma adaptField_Inr:
  "adaptField s f = (Inr af, s') \<Longrightarrow>
     \<not> nullish f \<and>
     f_id af = js_or (propOf f ''fieldId'') (propOf f ''id'') \<and>
     f_name af = propOf f ''name'' \<and>
     adaptReference s (propOf f ''reference'') (js_or (propOf f ''fieldId'') (propOf f ''id''))
       = (Inr (f_reference af), s')"
  unfolding adaptField_def
  by (auto split: if_splits sum.splits prod.splits)


lemma adaptTab_Inr:
  "adaptTab s t = (Inr at, s') \<Longrightarrow>
     \<not> nullish t \<and> (\<exists>fs. propOf t ''fields'' = JArr fs \<and> mapS adaptField s fs = (Inr (t_fields at), s'))"
  unfolding adaptTab_def js_mapS_def
  by (auto split: if_splits json.splits prod.splits sum.splits)

lemma adaptWindowDefinition_Inr:
  "adaptWindowDefinition s D = (Inr w, s') \<Longrightarrow>
     \<not> nullish D \<and> debugConversion D = Inr () \<and>
     (\<exists>ts. propOf D ''tabs'' = JArr ts \<and> mapS adaptTab Map.empty ts = (Inr (w_tabs w), s'))"
  unfolding adaptWindowDefinition_def js_mapS_def clearEmbeddedReferences_def
  by (auto split: if_splits json.splits prod.splits sum.splits)


lemma tab_fields_rel:
  "adaptTab s t = (Inr at, s') \<Longrightarrow>
     list_all2 (\<lambda>f af. \<exists>s1 s2. adaptField s1 f = (Inr af, s2)) (external_fields t) (t_fields at)"
  by (auto dest!: adaptTab_Inr mapS_list_all2 simp: external_fields_def)

lemma window_tabs_rel:
  "adaptWindowDefinition s D = (Inr w, s') \<Longrightarrow>
     list_all2 (\<lambda>t at. \<exists>s1 s2. adaptTab s1 t = (Inr at, s2)) (external_tabs D) (w_tabs w)"
  by (auto dest!: adaptWindowDefinition_Inr mapS_list_all2 simp: external_tabs_def)

lemma adapted_tab_at:
  assumes "adaptWindowDefinition s D = (Inr w, s')" and "i < length (w_tabs w)"
  shows "\<exists>s1 s2. adaptTab s1 (external_tabs D ! i) = (Inr (w_tabs w ! i), s2)"
  using window_tabs_rel[OF assms(1)] assms(2) by (auto simp: list_all2_conv_all_nth)

lemma adapted_field_at:
  assumes "adaptTab s t = (Inr at, s')" and "j < length (t_fields at)"
  shows "\<exists>s1 s2. adaptField s1 (external_fields t ! j) = (Inr (t_fields at ! j), s2)"
  using tab_fields_rel[OF assms(1)] assms(2) by (auto simp: list_all2_conv_all_nth)

lemma list_all2_map_eq:
  "list_all2 (\<lambda>x y. g y = h x) xs ys \<Longrightarrow> map g ys = map h xs"
  by (induction rule: list_all2_induct) auto

lemma adapted_tab_field_order:
  assumes "adaptTab s t = (Inr at, s')"
  shows "map f_id (t_fields at) = map (\<lambda>f. js_or (propOf f ''fieldId'') (propOf f ''id'')) (external_fields t)"
    and "map f_name (t_fields at) = map (\<lambda>f. propOf f ''name'') (external_fields t)"
proof -
  have rel: "list_all2 (\<lambda>f af. \<exists>s1 s2. adaptField s1 f = (Inr af, s2)) (external_fields t) (t_fields at)"
    using tab_fields_rel[OF assms] .
  have "list_all2 (\<lambda>f af. f_id af = js_or (propOf f ''fieldId'') (propOf f ''id'')) (external_fields t) (t_fields at)"
    using rel by (rule list_all2_mono) (auto dest: adaptField_Inr)
  then show "map f_id (t_fields at) = map (\<lambda>f. js_or (propOf f ''fieldId'') (propOf f ''id'')) (external_fields t)"
    by (rule list_all2_map_eq)
  have "list_all2 (\<lambda>f af. f_name af = propOf f ''name'') (external_fields t) (t_fields at)"
    using rel by (rule list_all2_mono) (auto dest: adaptField_Inr)
  then show "map f_name (t_fields at) = map (\<lambda>f. propOf f ''name'') (external_fields t)"
    by (rule list_all2_map_eq)
qed

lemma stringable_iff: "stringable v \<longleftrightarrow> (\<exists>s. js_toString v = Inr s)"
  by (cases "js_toString v") (auto simp: stringable_def)

lemma stringable_js_or: "stringable a \<Longrightarrow> stringable b \<Longrightarrow> stringable (js_or a b)"
  by (simp add: js_or_def)

lemma mapE_convertValue_ok:
  "list_all (\<lambda>v. \<not> nullish v) vs \<Longrightarrow> \<exists>cvs. mapE convertValue vs = Inr cvs"
  by (induction vs) (auto simp: convertValue_def)

lemma valid_reference_adapts:
  assumes "valid_reference r" and "stringable fid"
  shows "\<exists>ro s'. adaptReference s r fid = (Inr ro, s')"
proof (cases "\<not> truthy r \<or> \<not> truthy (propOf r ''values'')")
  case True
  then show ?thesis by (auto simp: adaptReference_def)
next
  case False
  with assms(1) obtain vs where vs: "propOf r ''values'' = JArr vs" "list_all (\<lambda>v. \<not> nullish v) vs"
    by (cases "propOf r ''values''") (auto simp: valid_reference_def)
  from mapE_convertValue_ok[OF vs(2)] obtain cvs where cvs: "mapE convertValue vs = Inr cvs" by blast
  from assms(2) obtain f where f: "js_toString fid = Inr f" by (auto simp: stringable_iff)
  from False vs cvs f show ?thesis
    by (auto simp: adaptReference_def js_map_def Let_def)
qed

lemma valid_field_adapts:
  assumes "valid_field f"
  shows "\<exists>af s'. adaptField s f = (Inr af, s')"
proof -
  from assms have nn: "\<not> nullish f" and ref: "valid_reference (propOf f ''reference'')"
    and fid: "stringable (js_or (propOf f ''fieldId'') (propOf f ''id''))"
    by (auto simp: valid_field_def stringable_js_or)
  from assms obtain ck where ck: "js_toString (propOf f ''component'') = Inr ck"
    by (auto simp: valid_field_def stringable_iff)
  from valid_reference_adapts[OF ref fid] obtain ro s' where
    "adaptReference s (propOf f ''reference'') (js_or (propOf f ''fieldId'') (propOf f ''id'')) = (Inr ro, s')"
    by blast
  with nn ck show ?thesis by (simp add: adaptField_def)
qed

lemma mapS_succeeds:
  "(\<And>x s. x \<in> set xs \<Longrightarrow> \<exists>y s'. f s x = (Inr y, s')) \<Longrightarrow> \<exists>ys s'. mapS f s xs = (Inr ys, s')"
proof (induction xs arbitrary: s)
  case Nil
  then show ?case by simp
next
  case (Cons x xs)
  from Cons.prems[of x s] obtain y s1 where fx: "f s x = (Inr y, s1)" by auto
  from Cons.IH[of s1] Cons.prems obtain ys s2 where "mapS f s1 xs = (Inr ys, s2)" by auto
  with fx show ?case by simp
qed

lemma forEachE_succeeds:
  "(\<And>x. x \<in> set xs \<Longrightarrow> f x = Inr ()) \<Longrightarrow> forEachE f xs = Inr ()"
  by (induction xs) auto

lemma valid_field_debug:
  assumes "valid_field f"
  shows "debugField f = Inr ()"
proof -
  from assms obtain s1 s2 s3 s4 where conv:
    "js_toString (propOf f ''name'') = Inr s1" "js_toString (propOf f ''component'') = Inr s2"
    "js_toString (propOf f ''fieldId'') = Inr s3"
    and nn: "\<not> nullish f"
    by (auto simp: valid_field_def stringable_iff)
  show ?thesis
  proof (cases "truthy (propOf f ''reference'')")
    case False
    with conv nn show ?thesis by (simp add: debugField_def get_def)
  next
    case True
    with assms obtain s5 where "js_toString (propOf (propOf f ''reference'') ''id'') = Inr s5"
      by (auto simp: valid_field_def valid_reference_def stringable_iff)
    with True conv nn show ?thesis by (simp add: debugField_def get_def)
  qed
qed

lemma valid_tab_adapts:
  assumes "valid_tab t"
  shows "\<exists>at s'. adaptTab s t = (Inr at, s')"
proof -
  from assms obtain fs where fs: "propOf t ''fields'' = JArr fs" and all: "list_all valid_field fs"
    and nn: "\<not> nullish t"
    by (cases "propOf t ''fields''") (auto simp: valid_tab_def external_fields_def)
  have "\<exists>afs s'. mapS adaptField s fs = (Inr afs, s')"
    using all by (intro mapS_succeeds valid_field_adapts) (simp add: list_all_iff)
  with fs nn show ?thesis by (auto simp: adaptTab_def js_mapS_def)
qed

lemma valid_tab_debug:
  assumes "valid_tab t"
  shows "debugTab t = Inr ()"
proof -
  from assms obtain fs where fs: "propOf t ''fields'' = JArr fs" and all: "list_all valid_field fs"
    and nn: "\<not> nullish t"
    by (cases "propOf t ''fields''") (auto simp: valid_tab_def external_fields_def)
  from assms obtain s1 where nm: "js_toString (propOf t ''name'') = Inr s1"
    by (auto simp: valid_tab_def stringable_iff)
  have "forEachE debugField fs = Inr ()"
    using all by (intro forEachE_succeeds valid_field_debug) (simp add: list_all_iff)
  with fs nn nm show ?thesis
    by (simp add: debugTab_def get_def opt_prop_def opt_forEach_def js_or_def)
qed

lemma valid_document_adapts:
  assumes "valid_document D"
  shows "\<exists>w s'. adaptWindowDefinition s D = (Inr w, s')"
proof -
  from assms obtain ts where ts: "propOf D ''tabs'' = JArr ts" and all: "list_all valid_tab ts"
    and nn: "\<not> nullish D"
    by (cases "propOf D ''tabs''") (auto simp: valid_document_def external_tabs_def)
  have "\<exists>ats s'. mapS adaptTab Map.empty ts = (Inr ats, s')"
    using all by (intro mapS_succeeds valid_tab_adapts) (simp add: list_all_iff)
  moreover have "forEachE debugTab ts = Inr ()"
    using all by (intro forEachE_succeeds valid_tab_debug) (simp add: list_all_iff)
  ultimately show ?thesis using ts nn
    by (auto simp: adaptWindowDefinition_def js_mapS_def debugConversion_def opt_forEach_def
        clearEmbeddedReferences_def)
qed


lemmas adapter_eval =
  adaptWindowDefinition_def js_mapS_def adaptTab_def adaptField_def adaptReference_def
  js_map_def convertValue_def js_or_def debugConversion_def debugTab_def debugField_def
  opt_forEach_def get_def opt_prop_def EMBEDDED_REF_def clearEmbeddedReferences_def
  adaptDisplayLogic_def Let_def

lemma inspection_window_valid: "valid_document inspection_window"
  by (simp add: valid_document_def valid_tab_def valid_field_def valid_reference_def
      stringable_def external_tabs_def external_fields_def inspection_window_def
      inspection_values_def)

text \<open>
  C9. Every valid external document is adapted, and every adapted window has exactly as
  many tabs as the document; within each tab the adapted fields are the external
  fields in the same order (ids and names position by position).
\<close>

theorem tabs_and_field_order_preserved:
  "(valid_document D \<longrightarrow> (\<exists>w s'. adaptWindowDefinition s D = (Inr w, s'))) \<and>
   (\<forall>w s'. adaptWindowDefinition s D = (Inr w, s') \<longrightarrow>
      length (w_tabs w) = length (external_tabs D) \<and>
      (\<forall>i < length (external_tabs D).
         map f_id (t_fields (w_tabs w ! i)) =
           map external_field_id (external_fields (external_tabs D ! i)) \<and>
         map f_name (t_fields (w_tabs w ! i)) =
           map (\<lambda>f. propOf f ''name'') (external_fields (external_tabs D ! i))))"
proof (intro conjI impI allI)
  assume "valid_document D"
  then show "\<exists>w s'. adaptWindowDefinition s D = (Inr w, s')" by (rule valid_document_adapts)
next
  fix w s' assume a: "adaptWindowDefinition s D = (Inr w, s')"
  from window_tabs_rel[OF a] show len: "length (w_tabs w) = length (external_tabs D)"
    by (simp add: list_all2_lengthD)
  fix i assume i: "i < length (external_tabs D)"
  with len have "i < length (w_tabs w)" by simp
  from adapted_tab_at[OF a this] obtain s1 s2 where
    t: "adaptTab s1 (external_tabs D ! i) = (Inr (w_tabs w ! i), s2)" by blast
  from adapted_tab_field_order(1)[OF t]
  show "map f_id (t_fields (w_tabs w ! i)) = map external_field_id (external_fields (external_tabs D ! i))"
    by (simp add: external_field_id_def)
  from adapted_tab_field_order(2)[OF t]
  show "map f_name (t_fields (w_tabs w ! i)) = map (\<lambda>f. propOf f ''name'') (external_fields (external_tabs D ! i))" .
qed

theorem tabs_and_field_order_preserved_witness:
  "valid_document inspection_window \<and>
   \<not> isl (fst (adaptWindowDefinition Map.empty inspection_window)) \<and>
   length (w_tabs (projr (fst (adaptWindowDefinition Map.empty inspection_window)))) = 1 \<and>
   map f_id (t_fields (w_tabs (projr (fst (adaptWindowDefinition Map.empty inspection_window))) ! 0))
     = [JStr ''status'', JStr ''result'', JStr ''country'']"
proof -
  have v: "valid_document inspection_window" by (rule inspection_window_valid)
  from tabs_and_field_order_preserved[of inspection_window Map.empty] v
  obtain w s' where a: "adaptWindowDefinition Map.empty inspection_window = (Inr w, s')" by blast
  from tabs_and_field_order_preserved[of inspection_window Map.empty] a
  have "length (w_tabs w) = length (external_tabs inspection_window)"
    and "\<forall>i < length (external_tabs inspection_window).
         map f_id (t_fields (w_tabs w ! i)) =
           map external_field_id (external_fields (external_tabs inspection_window ! i))"
    by blast+
  then have "length (w_tabs w) = 1"
    and "map f_id (t_fields (w_tabs w ! 0)) = [JStr ''status'', JStr ''result'', JStr ''country'']"
    by (simp_all add: external_tabs_def external_fields_def inspection_window_def
        external_field_id_def js_or_def)
  with v a show ?thesis by simp
qed


subsection \<open>Fields and their references\<close>

lemma adapted_field_of_window:
  assumes "adaptWindowDefinition s D = (Inr w, s')"
    and "i < length (external_tabs D)" and "j < length (external_fields (external_tabs D ! i))"
  shows "\<exists>s1 s2. adaptField s1 (external_fields (external_tabs D ! i) ! j)
           = (Inr (t_fields (w_tabs w ! i) ! j), s2)"
proof -
  from window_tabs_rel[OF assms(1)] have "length (w_tabs w) = length (external_tabs D)"
    by (simp add: list_all2_lengthD)
  with assms(2) have "i < length (w_tabs w)" by simp
  from adapted_tab_at[OF assms(1) this] obtain s1 s2 where
    t: "adaptTab s1 (external_tabs D ! i) = (Inr (w_tabs w ! i), s2)" by blast
  from tab_fields_rel[OF t] assms(3) have "j < length (t_fields (w_tabs w ! i))"
    by (simp add: list_all2_lengthD)
  from adapted_field_at[OF t this] show ?thesis .
qed

lemma adaptField_embedded:
  assumes "adaptField s f = (Inr af, s')" and "carries_inline_reference f"
  shows "\<exists>fid vs. js_toString (external_field_id f) = Inr fid \<and>
           js_map ''reference.values'' convertValue (propOf (propOf f ''reference'') ''values'') = Inr vs \<and>
           f_reference af = Some \<lparr>ref_id = JStr (fid @ ''_EMBEDDED_REF''),
              ref_name = js_or (propOf (propOf f ''reference'') ''name'') (JStr ''Reference''),
              ref_validationType = js_or (propOf (propOf f ''reference'') ''validationType'') (JStr ''LIST''),
              ref_values = vs\<rparr> \<and>
           s' = s(fid @ ''_EMBEDDED_REF'' \<mapsto> vs)"
  using adaptReference_cases[OF conjunct2[OF conjunct2[OF conjunct2[OF adaptField_Inr[OF assms(1)]]]]]
    assms(2)
  by (auto simp: carries_inline_reference_def external_field_id_def EMBEDDED_REF_def)

lemma adaptField_external:
  assumes "adaptField s f = (Inr af, s')"
    and "truthy (propOf f ''reference'')"
    and "truthy (propOf (propOf f ''reference'') ''values'')"
    and "truthy (propOf (propOf f ''reference'') ''id'')"
  shows "\<exists>vs. f_reference af = Some \<lparr>ref_id = propOf (propOf f ''reference'') ''id'',
              ref_name = js_or (propOf (propOf f ''reference'') ''name'') (JStr ''Reference''),
              ref_validationType = js_or (propOf (propOf f ''reference'') ''validationType'') (JStr ''LIST''),
              ref_values = vs\<rparr> \<and> s' = s"
  using adaptReference_cases[OF conjunct2[OF conjunct2[OF conjunct2[OF adaptField_Inr[OF assms(1)]]]]]
    assms(2-4)
  by auto

lemma adaptField_no_values:
  assumes "adaptField s f = (Inr af, s')"
    and "\<not> truthy (propOf f ''reference'') \<or> \<not> truthy (propOf (propOf f ''reference'') ''values'')"
  shows "f_reference af = None \<and> s' = s"
  using adaptReference_cases[OF conjunct2[OF conjunct2[OF conjunct2[OF adaptField_Inr[OF assms(1)]]]]]
    assms(2)
  by auto




lemma inspection_window_adapted:
  "\<exists>w s'. adaptWindowDefinition Map.empty inspection_window = (Inr w, s')"
  using valid_document_adapts[OF inspection_window_valid] .




text \<open>
  C8 (amended). A field whose reference carries its own id and an inline values array
  keeps that id verbatim in the adapted reference. A reference without inline values is
  dropped: the adapted field has no reference, whether or not the external reference
  had an id.
\<close>

theorem external_reference_id_reused:
  assumes "adaptWindowDefinition s D = (Inr w, s')"
    and "i < length (external_tabs D)"
    and "j < length (external_fields (external_tabs D ! i))"
    and "truthy (propOf (propOf (external_fields (external_tabs D ! i) ! j) ''reference'') ''id'')"
  shows "(truthy (propOf (external_fields (external_tabs D ! i) ! j) ''reference'') \<and>
          truthy (propOf (propOf (external_fields (external_tabs D ! i) ! j) ''reference'') ''values'')
          \<longrightarrow> map_option ref_id (f_reference (t_fields (w_tabs w ! i) ! j))
                = Some (propOf (propOf (external_fields (external_tabs D ! i) ! j) ''reference'') ''id'')) \<and>
         (\<not> truthy (propOf (propOf (external_fields (external_tabs D ! i) ! j) ''reference'') ''values'')
          \<longrightarrow> f_reference (t_fields (w_tabs w ! i) ! j) = None)"
proof -
  from adapted_field_of_window[OF assms(1-3)] obtain s1 s2 where
    af: "adaptField s1 (external_fields (external_tabs D ! i) ! j)
           = (Inr (t_fields (w_tabs w ! i) ! j), s2)" by blast
  show ?thesis
    using adaptField_external[OF af] adaptField_no_values[OF af] assms(4) by auto
qed

theorem external_reference_id_reused_witness:
  "truthy (propOf (propOf (external_fields (external_tabs inspection_window ! 0) ! 1) ''reference'') ''id'') \<and>
   truthy (propOf (propOf (external_fields (external_tabs inspection_window ! 0) ! 1) ''reference'') ''values'') \<and>
   \<not> isl (fst (adaptWindowDefinition Map.empty inspection_window)) \<and>
   map_option ref_id (f_reference (t_fields (w_tabs (projr (fst
      (adaptWindowDefinition Map.empty inspection_window))) ! 0) ! 1))
     = Some (JStr ''RESULT_LIST'')"
proof -
  obtain w s' where a: "adaptWindowDefinition Map.empty inspection_window = (Inr w, s')"
    using inspection_window_adapted by blast
  have i: "0 < length (external_tabs inspection_window)"
    and j: "1 < length (external_fields (external_tabs inspection_window ! 0))"
    and r: "propOf (external_fields (external_tabs inspection_window ! 0) ! 1) ''reference''
             = JObj [(''id'', JStr ''RESULT_LIST''), (''values'', inspection_values)]"
    by (simp_all add: external_tabs_def external_fields_def inspection_window_def)
  have t: "truthy (propOf (propOf (external_fields (external_tabs inspection_window ! 0) ! 1) ''reference'') ''id'')"
    and v: "truthy (propOf (propOf (external_fields (external_tabs inspection_window ! 0) ! 1) ''reference'') ''values'')"
    and tr: "truthy (propOf (external_fields (external_tabs inspection_window ! 0) ! 1) ''reference'')"
    by (simp_all add: external_tabs_def external_fields_def inspection_window_def
        inspection_values_def)
  from external_reference_id_reused[OF a i j t] v tr
  have "map_option ref_id (f_reference (t_fields (w_tabs w ! 0) ! 1))
          = Some (propOf (propOf (external_fields (external_tabs inspection_window ! 0) ! 1) ''reference'') ''id'')"
    by blast
  also have "\<dots> = Some (JStr ''RESULT_LIST'')"
    by (simp add: external_tabs_def external_fields_def inspection_window_def)
  finally have "map_option ref_id (f_reference (t_fields (w_tabs w ! 0) ! 1)) = Some (JStr ''RESULT_LIST'')" .
  with a t v show ?thesis by simp
qed

text \<open>
  The third field of the example window has a reference with an id and no inline
  values: the adapted field has no reference at all.
\<close>

theorem external_reference_id_dropped_counterexample:
  "propOf (propOf (external_fields (external_tabs inspection_window ! 0) ! 2) ''reference'') ''id''
     = JStr ''C_Country'' \<and>
   \<not> isl (fst (adaptWindowDefinition Map.empty inspection_window)) \<and>
   f_reference (t_fields (w_tabs (projr (fst
      (adaptWindowDefinition Map.empty inspection_window))) ! 0) ! 2) = None"
  by (simp add: external_tabs_def external_fields_def inspection_window_def
      inspection_values_def adapter_eval)


subsection \<open>Malformed documents\<close>

lemma adaptWindowDefinition_no_tabs_array:
  assumes "\<not> nullish D" and "\<not> isArray (propOf D ''tabs'')"
  shows "adaptWindowDefinition s D =
           (Inl (if nullish (propOf D ''tabs'') then cannot_read (propOf D ''tabs'') ''map''
                 else not_a_function ''externalWindow.tabs.map''), Map.empty)"
  using assms
  by (cases "propOf D ''tabs''") (simp_all add: adaptWindowDefinition_def js_mapS_def
      clearEmbeddedReferences_def)

lemma adaptField_without_id:
  assumes "valid_field f" and "propOf f ''fieldId'' = JUndefined" and "propOf f ''id'' = JUndefined"
  shows "\<exists>af s1. adaptField s f = (Inr af, s1) \<and> f_id af = JUndefined \<and> f_fieldId af = JUndefined"
proof -
  from valid_field_adapts[OF assms(1)] obtain af s1 where a: "adaptField s f = (Inr af, s1)" by blast
  then have "f_id af = JUndefined \<and> f_fieldId af = JUndefined"
    using assms(2,3)
    by (auto simp: adaptField_def js_or_def split: if_splits sum.splits prod.splits)
  with a show ?thesis by blast
qed

lemma adapted_tabs_well_formed:
  assumes "adaptWindowDefinition s D = (Inr w, s')"
  shows "isArray (propOf D ''tabs'') \<and> length (w_tabs w) = length (external_tabs D) \<and>
         (\<forall>t \<in> set (external_tabs D). \<not> nullish t \<and> isArray (propOf t ''fields''))"
proof -
  from adaptWindowDefinition_Inr[OF assms] have arr: "isArray (propOf D ''tabs'')" by auto
  from window_tabs_rel[OF assms]
  have rel: "list_all2 (\<lambda>t at. \<exists>s1 s2. adaptTab s1 t = (Inr at, s2)) (external_tabs D) (w_tabs w)" .
  then have len: "length (w_tabs w) = length (external_tabs D)" by (simp add: list_all2_lengthD)
  have "\<not> nullish t \<and> isArray (propOf t ''fields'')" if "t \<in> set (external_tabs D)" for t
  proof -
    from that obtain i where "i < length (external_tabs D)" "external_tabs D ! i = t"
      by (auto simp: in_set_conv_nth)
    with rel obtain s1 s2 where "adaptTab s1 t = (Inr (w_tabs w ! i), s2)"
      by (auto simp: list_all2_conv_all_nth)
    from adaptTab_Inr[OF this] show ?thesis by auto
  qed
  with arr len show ?thesis by blast
qed

text \<open>
  C2 (amended). The adapter does not validate its input. A document without a tabs array
  makes the call throw the engine's \<open>TypeError\<close> for the \<open>.map\<close> call, whose message
  names no tab or field index. A field with no id is not rejected: it is adapted, with
  an undefined id. Tabs are never dropped: a successful call returns one adapted tab per
  external tab, and a null tab or a tab without a fields array makes the whole call throw.
\<close>

theorem adapter_does_not_validate:
  "(\<not> nullish D \<and> \<not> isArray (propOf D ''tabs'') \<longrightarrow>
      adaptWindowDefinition s D =
        (Inl (if nullish (propOf D ''tabs'') then cannot_read (propOf D ''tabs'') ''map''
              else not_a_function ''externalWindow.tabs.map''), Map.empty)) \<and>
   (valid_field f \<and> propOf f ''fieldId'' = JUndefined \<and> propOf f ''id'' = JUndefined \<longrightarrow>
      (\<exists>af s1. adaptField s f = (Inr af, s1) \<and> f_id af = JUndefined \<and> f_fieldId af = JUndefined)) \<and>
   (\<forall>w s'. adaptWindowDefinition s D = (Inr w, s') \<longrightarrow>
      isArray (propOf D ''tabs'') \<and> length (w_tabs w) = length (external_tabs D) \<and>
      (\<forall>t \<in> set (external_tabs D). \<not> nullish t \<and> isArray (propOf t ''fields'')))"
  using adaptWindowDefinition_no_tabs_array[of D s] adaptField_without_id[of f s]
    adapted_tabs_well_formed[of s D]
  by blast

theorem adapter_does_not_validate_witness:
  "\<not> nullish tabless_window \<and> \<not> isArray (propOf tabless_window ''tabs'') \<and>
   adaptWindowDefinition Map.empty tabless_window =
     (Inl (TypeError ''Cannot read properties of undefined (reading 'map')''), Map.empty) \<and>
   valid_field (JObj [(''name'', JStr ''Notes''), (''component'', JStr ''TextField'')]) \<and>
   \<not> isl (fst (adaptField Map.empty (JObj [(''name'', JStr ''Notes''), (''component'', JStr ''TextField'')]))) \<and>
   f_id (projr (fst (adaptField Map.empty
     (JObj [(''name'', JStr ''Notes''), (''component'', JStr ''TextField'')])))) = JUndefined"
proof -
  have h1: "\<not> nullish tabless_window \<and> \<not> isArray (propOf tabless_window ''tabs'')"
    by (simp add: tabless_window_def)
  have h2: "valid_field (JObj [(''name'', JStr ''Notes''), (''component'', JStr ''TextField'')]) \<and>
      propOf (JObj [(''name'', JStr ''Notes''), (''component'', JStr ''TextField'')]) ''fieldId'' = JUndefined \<and>
      propOf (JObj [(''name'', JStr ''Notes''), (''component'', JStr ''TextField'')]) ''id'' = JUndefined"
    by (simp add: valid_field_def valid_reference_def stringable_def)
  from adapter_does_not_validate[of tabless_window Map.empty
      "JObj [(''name'', JStr ''Notes''), (''component'', JStr ''TextField'')]"] h1 h2
  have "adaptWindowDefinition Map.empty tabless_window =
        (Inl (if nullish (propOf tabless_window ''tabs'') then cannot_read (propOf tabless_window ''tabs'') ''map''
              else not_a_function ''externalWindow.tabs.map''), Map.empty)"
    and "\<exists>af s1. adaptField Map.empty (JObj [(''name'', JStr ''Notes''), (''component'', JStr ''TextField'')])
           = (Inr af, s1) \<and> f_id af = JUndefined \<and> f_fieldId af = JUndefined"
    by blast+
  then show ?thesis using h1 h2
    by (auto simp: tabless_window_def cannot_read_def)
qed

text \<open>
  A document whose only field has neither \<open>fieldId\<close> nor \<open>id\<close> is adapted without
  any error; the adapted field's id is undefined.
\<close>

theorem field_without_id_accepted_counterexample:
  "external_field_id (external_fields (external_tabs anonymous_field_window ! 0) ! 0) = JUndefined \<and>
   \<not> isl (fst (adaptWindowDefinition Map.empty anonymous_field_window)) \<and>
   f_id (t_fields (w_tabs (projr (fst
      (adaptWindowDefinition Map.empty anonymous_field_window))) ! 0) ! 0) = JUndefined"
  by (simp add: external_tabs_def external_fields_def external_field_id_def
      anonymous_field_window_def adapter_eval)


subsection \<open>The embedded-reference store\<close>

text \<open>What one field writes in the store: nothing, or its converted inline values under its generated id.\<close>

lemma adaptReference_store:
  "adaptReference s r fid = (res, s') \<Longrightarrow>
     s' = s \<or>
     (truthy r \<and> truthy (propOf r ''values'') \<and> \<not> truthy (propOf r ''id'') \<and>
      (\<exists>f vs. js_toString fid = Inr f \<and>
         js_map ''reference.values'' convertValue (propOf r ''values'') = Inr vs \<and>
         s' = s(f @ ''_EMBEDDED_REF'' \<mapsto> vs)))"
  unfolding adaptReference_def
  by (auto split: if_splits sum.splits simp: Let_def EMBEDDED_REF_def)

lemma adaptField_store:
  assumes "adaptField s f = (res, s')"
  shows "s' = s \<or>
     (carries_inline_reference f \<and>
      (\<exists>fid vs. js_toString (external_field_id f) = Inr fid \<and>
         js_map ''reference.values'' convertValue (propOf (propOf f ''reference'') ''values'') = Inr vs \<and>
         s' = s(fid @ ''_EMBEDDED_REF'' \<mapsto> vs)))"
proof (cases "nullish f \<or> isl (js_toString (propOf f ''component''))")
  case True
  with assms show ?thesis by (auto simp: adaptField_def split: sum.splits if_splits)
next
  case False
  obtain r1 s1 where r: "adaptReference s (propOf f ''reference'') (external_field_id f) = (r1, s1)"
    by (cases "adaptReference s (propOf f ''reference'') (external_field_id f)")
  with assms False have "s' = s1"
    by (auto simp: adaptField_def external_field_id_def split: sum.splits)
  with adaptReference_store[OF r] show ?thesis
    by (auto simp: carries_inline_reference_def)
qed

lemma fields_store_only:
  assumes "mapS adaptField s fs = (res, s')" and "s' k = Some vs"
  shows "s k = Some vs \<or> (\<exists>f \<in> set fs. from_field f k vs)"
proof -
  have "\<forall>k vs. s' k = Some vs \<longrightarrow> s k = Some vs \<or> (\<exists>f \<in> set fs. from_field f k vs)"
  proof (rule mapS_invariant[where f = adaptField and xs = fs and s = s and r = res
        and P = "\<lambda>t. \<forall>k vs. t k = Some vs \<longrightarrow> s k = Some vs \<or> (\<exists>f \<in> set fs. from_field f k vs)"])
    show "\<forall>k vs. s k = Some vs \<longrightarrow> s k = Some vs \<or> (\<exists>f \<in> set fs. from_field f k vs)" by simp
    show "mapS adaptField s fs = (res, s')" by (rule assms(1))
  next
    fix t x r t'
    assume x: "x \<in> set fs"
      and P: "\<forall>k vs. t k = Some vs \<longrightarrow> s k = Some vs \<or> (\<exists>f \<in> set fs. from_field f k vs)"
      and a: "adaptField t x = (r, t')"
    from adaptField_store[OF a]
    show "\<forall>k vs. t' k = Some vs \<longrightarrow> s k = Some vs \<or> (\<exists>f \<in> set fs. from_field f k vs)"
    proof
      assume "t' = t" with P show ?thesis by simp
    next
      assume "carries_inline_reference x \<and>
        (\<exists>fid vs. js_toString (external_field_id x) = Inr fid \<and>
           js_map ''reference.values'' convertValue (propOf (propOf x ''reference'') ''values'') = Inr vs \<and>
           t' = t(fid @ ''_EMBEDDED_REF'' \<mapsto> vs))"
      then obtain fid vs0 where c: "carries_inline_reference x"
        "js_toString (external_field_id x) = Inr fid"
        "js_map ''reference.values'' convertValue (propOf (propOf x ''reference'') ''values'') = Inr vs0"
        "t' = t(fid @ ''_EMBEDDED_REF'' \<mapsto> vs0)" by blast
      then have "from_field x (fid @ ''_EMBEDDED_REF'') vs0" by (simp add: from_field_def)
      with c(4) P x show ?thesis by (auto simp: fun_upd_def)
    qed
  qed
  with assms(2) show ?thesis by blast
qed

lemma tab_store_only:
  assumes "adaptTab s t = (res, s')" and "s' k = Some vs"
  shows "s k = Some vs \<or> (\<exists>f \<in> set (external_fields t). from_field f k vs)"
proof (cases "nullish t")
  case True
  with assms show ?thesis by (simp add: adaptTab_def)
next
  case False
  show ?thesis
  proof (cases "propOf t ''fields''")
    case (JArr fs)
    obtain r1 s1 where m: "mapS adaptField s fs = (r1, s1)" by (cases "mapS adaptField s fs")
    with assms(1) False JArr have "s' = s1"
      by (auto simp: adaptTab_def js_mapS_def split: sum.splits)
    with fields_store_only[OF m] assms(2) JArr show ?thesis by (simp add: external_fields_def)
  qed (use assms False in \<open>auto simp: adaptTab_def js_mapS_def\<close>)
qed

lemma tabs_store_only:
  assumes "mapS adaptTab s ts = (res, s')" and "s' k = Some vs"
  shows "s k = Some vs \<or> (\<exists>f \<in> set (concat (map external_fields ts)). from_field f k vs)"
proof -
  have "\<forall>k vs. s' k = Some vs \<longrightarrow>
          s k = Some vs \<or> (\<exists>f \<in> set (concat (map external_fields ts)). from_field f k vs)"
  proof (rule mapS_invariant[where f = adaptTab and xs = ts and s = s and r = res
        and P = "\<lambda>u. \<forall>k vs. u k = Some vs \<longrightarrow>
          s k = Some vs \<or> (\<exists>f \<in> set (concat (map external_fields ts)). from_field f k vs)"])
    show "\<forall>k vs. s k = Some vs \<longrightarrow>
          s k = Some vs \<or> (\<exists>f \<in> set (concat (map external_fields ts)). from_field f k vs)" by simp
    show "mapS adaptTab s ts = (res, s')" by (rule assms(1))
  next
    fix u x r u'
    assume x: "x \<in> set ts"
      and P: "\<forall>k vs. u k = Some vs \<longrightarrow>
          s k = Some vs \<or> (\<exists>f \<in> set (concat (map external_fields ts)). from_field f k vs)"
      and a: "adaptTab u x = (r, u')"
    show "\<forall>k vs. u' k = Some vs \<longrightarrow>
          s k = Some vs \<or> (\<exists>f \<in> set (concat (map external_fields ts)). from_field f k vs)"
    proof (intro allI impI)
      fix k vs assume "u' k = Some vs"
      from tab_store_only[OF a this] P x
      show "s k = Some vs \<or> (\<exists>f \<in> set (concat (map external_fields ts)). from_field f k vs)"
        by auto
    qed
  qed
  with assms(2) show ?thesis by blast
qed


lemma mapS_grows:
  assumes "\<And>s x y s'. x \<in> set xs \<Longrightarrow> f s x = (Inr y, s') \<Longrightarrow>
             (\<forall>k. s k \<noteq> None \<longrightarrow> s' k \<noteq> None) \<and> (\<forall>k. K x k \<longrightarrow> s' k \<noteq> None)"
    and "mapS f s xs = (Inr ys, s')"
  shows "(\<forall>k. s k \<noteq> None \<longrightarrow> s' k \<noteq> None) \<and> (\<forall>x \<in> set xs. \<forall>k. K x k \<longrightarrow> s' k \<noteq> None)"
  using assms
proof (induction xs arbitrary: s ys)
  case Nil
  then show ?case by simp
next
  case (Cons x xs)
  from Cons.prems(2) obtain y s1 zs where fx: "f s x = (Inr y, s1)"
    and rest: "mapS f s1 xs = (Inr zs, s')"
    by (auto split: prod.splits sum.splits)
  have "x \<in> set (x # xs)" by simp
  from Cons.prems(1)[OF this fx]
  have 1: "\<forall>k. s k \<noteq> None \<longrightarrow> s1 k \<noteq> None" "\<forall>k. K x k \<longrightarrow> s1 k \<noteq> None" by blast+
  have "(\<forall>k. s1 k \<noteq> None \<longrightarrow> s' k \<noteq> None) \<and> (\<forall>x \<in> set xs. \<forall>k. K x k \<longrightarrow> s' k \<noteq> None)"
  proof (rule Cons.IH[OF _ rest])
    fix t z y t'
    assume "z \<in> set xs" and fz: "f t z = (Inr y, t')"
    then have "z \<in> set (x # xs)" by simp
    from Cons.prems(1)[OF this fz]
    show "(\<forall>k. t k \<noteq> None \<longrightarrow> t' k \<noteq> None) \<and> (\<forall>k. K z k \<longrightarrow> t' k \<noteq> None)" .
  qed
  then have 2: "\<forall>k. s1 k \<noteq> None \<longrightarrow> s' k \<noteq> None" "\<forall>x \<in> set xs. \<forall>k. K x k \<longrightarrow> s' k \<noteq> None"
    by blast+
  from 1 2 show ?case by (metis set_ConsD)
qed

lemma adaptField_grows:
  assumes "adaptField s f = (Inr af, s')"
  shows "(\<forall>k. s k \<noteq> None \<longrightarrow> s' k \<noteq> None) \<and> (\<forall>k. (\<exists>vs. from_field f k vs) \<longrightarrow> s' k \<noteq> None)"
proof (cases "carries_inline_reference f")
  case True
  from adaptField_embedded[OF assms True] show ?thesis
    by (auto simp: from_field_def)
next
  case False
  with adaptField_store[OF assms] show ?thesis by (auto simp: from_field_def)
qed

lemma adaptTab_grows:
  assumes "adaptTab s t = (Inr at, s')"
  shows "(\<forall>k. s k \<noteq> None \<longrightarrow> s' k \<noteq> None) \<and>
         (\<forall>k. (\<exists>f \<in> set (external_fields t). \<exists>vs. from_field f k vs) \<longrightarrow> s' k \<noteq> None)"
proof -
  from adaptTab_Inr[OF assms] obtain fs where fs: "propOf t ''fields'' = JArr fs"
    and m: "mapS adaptField s fs = (Inr (t_fields at), s')" by blast
  have "(\<forall>k. s k \<noteq> None \<longrightarrow> s' k \<noteq> None) \<and>
        (\<forall>f \<in> set fs. \<forall>k. (\<exists>vs. from_field f k vs) \<longrightarrow> s' k \<noteq> None)"
  proof (rule mapS_grows[where f = adaptField and K = "\<lambda>f k. \<exists>vs. from_field f k vs", OF _ m])
    fix t z y t'
    assume "adaptField t z = (Inr y, t')"
    then show "(\<forall>k. t k \<noteq> None \<longrightarrow> t' k \<noteq> None) \<and> (\<forall>k. (\<exists>vs. from_field z k vs) \<longrightarrow> t' k \<noteq> None)"
      by (rule adaptField_grows)
  qed
  moreover have "external_fields t = fs" using fs by (simp add: external_fields_def)
  ultimately show ?thesis by blast
qed

lemma window_store_complete:
  assumes "adaptWindowDefinition s D = (Inr w, s')" and "f \<in> set (document_fields D)"
    and "from_field f k vs"
  shows "s' k \<noteq> None"
proof -
  from adaptWindowDefinition_Inr[OF assms(1)] obtain ts where ts: "propOf D ''tabs'' = JArr ts"
    and m: "mapS adaptTab Map.empty ts = (Inr (w_tabs w), s')" by blast
  have "(\<forall>k. (Map.empty :: ref_store) k \<noteq> None \<longrightarrow> s' k \<noteq> None) \<and>
        (\<forall>t \<in> set ts. \<forall>k. (\<exists>f \<in> set (external_fields t). \<exists>vs. from_field f k vs) \<longrightarrow> s' k \<noteq> None)"
  proof (rule mapS_grows[where f = adaptTab and s = Map.empty
        and K = "\<lambda>t k. \<exists>f \<in> set (external_fields t). \<exists>vs. from_field f k vs", OF _ m])
    fix u z y u'
    assume "adaptTab u z = (Inr y, u')"
    then show "(\<forall>k. u k \<noteq> None \<longrightarrow> u' k \<noteq> None) \<and>
       (\<forall>k. (\<exists>f \<in> set (external_fields z). \<exists>vs. from_field f k vs) \<longrightarrow> u' k \<noteq> None)"
      by (rule adaptTab_grows)
  qed
  moreover from assms(2) ts obtain t where "t \<in> set ts" "f \<in> set (external_fields t)"
    by (auto simp: document_fields_def external_tabs_def)
  ultimately show ?thesis using assms(3) by blast
qed

lemma window_store_only:
  assumes "adaptWindowDefinition s D = (res, s')" and "\<not> nullish D" and "s' k = Some vs"
  shows "\<exists>f \<in> set (document_fields D). from_field f k vs"
proof (cases "propOf D ''tabs''")
  case (JArr ts)
  obtain r1 s1 where m: "mapS adaptTab Map.empty ts = (r1, s1)" by (cases "mapS adaptTab Map.empty ts")
  with assms(1,2) JArr have "s' = s1"
    by (auto simp: adaptWindowDefinition_def js_mapS_def clearEmbeddedReferences_def
        split: sum.splits)
  with tabs_store_only[OF m] assms(3) JArr show ?thesis
    by (auto simp: document_fields_def external_tabs_def)
qed (use assms in \<open>auto simp: adaptWindowDefinition_def js_mapS_def clearEmbeddedReferences_def\<close>)

lemma window_forgets_store:
  "\<not> nullish D \<Longrightarrow> adaptWindowDefinition s D = adaptWindowDefinition Map.empty D"
  by (simp add: adaptWindowDefinition_def clearEmbeddedReferences_def)

lemma carries_inline_from_field:
  assumes "adaptWindowDefinition s D = (Inr w, s')" and "f \<in> set (document_fields D)"
    and "carries_inline_reference f"
  shows "\<exists>k vs. from_field f k vs"
proof -
  from assms(2) obtain i j where ij: "i < length (external_tabs D)"
    "j < length (external_fields (external_tabs D ! i))" "f = external_fields (external_tabs D ! i) ! j"
    by (auto simp: document_fields_def in_set_conv_nth)
  from adapted_field_of_window[OF assms(1) ij(1,2)] ij(3) obtain s1 s2 af where
    "adaptField s1 f = (Inr af, s2)" by auto
  from adaptField_embedded[OF this assms(3)] assms(3) show ?thesis
    by (auto simp: from_field_def)
qed


text \<open>
  C7. Adapting a document starts from a cleared store: the outcome and the final store
  do not depend on what the store held before, so nothing of an earlier document
  survives. After a successful adaptation the store holds exactly the embedded
  references of the document: every entry is the generated id and converted values of
  one of its fields with inline values and no reference id, and every such field has
  its entry. After \<open>clearEmbeddedReferences\<close> every id resolves to not-found.
  (The document is a value other than null and undefined.)
\<close>

theorem store_cleared_for_each_document:
  assumes "\<not> nullish D"
  shows "adaptWindowDefinition s D = adaptWindowDefinition Map.empty D \<and>
         (\<forall>w s'. adaptWindowDefinition s D = (Inr w, s') \<longrightarrow>
            (\<forall>k vs. s' k = Some vs \<longrightarrow> (\<exists>f \<in> set (document_fields D). from_field f k vs)) \<and>
            (\<forall>f \<in> set (document_fields D). carries_inline_reference f \<longrightarrow>
               (\<exists>k vs. from_field f k vs \<and> getEmbeddedReferenceValues s' k \<noteq> None)) \<and>
            (\<forall>k. getEmbeddedReferenceValues (clearEmbeddedReferences s') k = None))"
proof (intro conjI allI impI ballI)
  show "adaptWindowDefinition s D = adaptWindowDefinition Map.empty D"
    using assms by (rule window_forgets_store)
next
  fix w s' k vs
  assume "adaptWindowDefinition s D = (Inr w, s')" and "s' k = Some vs"
  then show "\<exists>f \<in> set (document_fields D). from_field f k vs"
    using assms by (blast intro: window_store_only)
next
  fix w s' f
  assume a: "adaptWindowDefinition s D = (Inr w, s')" and f: "f \<in> set (document_fields D)"
    and c: "carries_inline_reference f"
  from carries_inline_from_field[OF a f c] obtain k vs where kv: "from_field f k vs" by blast
  from window_store_complete[OF a f kv] kv
  show "\<exists>k vs. from_field f k vs \<and> getEmbeddedReferenceValues s' k \<noteq> None"
    by (auto simp: getEmbeddedReferenceValues_def)
next
  fix w s' k
  show "getEmbeddedReferenceValues (clearEmbeddedReferences s') k = None"
    by (simp add: getEmbeddedReferenceValues_def clearEmbeddedReferences_def)
qed

theorem store_cleared_for_each_document_witness:
  "\<not> nullish inspection_window \<and>
   getEmbeddedReferenceValues stale_store ''stale_EMBEDDED_REF'' \<noteq> None \<and>
   adaptWindowDefinition stale_store inspection_window
     = adaptWindowDefinition Map.empty inspection_window \<and>
   \<not> isl (fst (adaptWindowDefinition stale_store inspection_window)) \<and>
   getEmbeddedReferenceValues (snd (adaptWindowDefinition stale_store inspection_window))
     ''stale_EMBEDDED_REF'' = None \<and>
   getEmbeddedReferenceValues (snd (adaptWindowDefinition stale_store inspection_window))
     ''status_EMBEDDED_REF'' \<noteq> None"
proof -
  have n: "\<not> nullish inspection_window" by (simp add: inspection_window_def)
  from store_cleared_for_each_document[OF n, of stale_store]
  have e: "adaptWindowDefinition stale_store inspection_window
             = adaptWindowDefinition Map.empty inspection_window" by blast
  moreover have "getEmbeddedReferenceValues stale_store ''stale_EMBEDDED_REF'' \<noteq> None"
    by (simp add: getEmbeddedReferenceValues_def stale_store_def)
  moreover have "\<not> isl (fst (adaptWindowDefinition Map.empty inspection_window))"
    using inspection_window_adapted by auto
  moreover have "getEmbeddedReferenceValues (snd (adaptWindowDefinition Map.empty inspection_window))
     ''stale_EMBEDDED_REF'' = None"
    and "getEmbeddedReferenceValues (snd (adaptWindowDefinition Map.empty inspection_window))
     ''status_EMBEDDED_REF'' \<noteq> None"
    by (simp_all add: getEmbeddedReferenceValues_def inspection_window_def inspection_values_def
        adapter_eval)
  ultimately show ?thesis using n by simp
qed


subsection \<open>The import pipeline\<close>

lemma readFileContent_Inr:
  assumes "fst (readFileContent pf q u c) = Inr raw"
  shows "\<exists>ds. readFileContent pf q u c = (Inr raw, q\<lparr>importDiagnostics := importDiagnostics q @ ds\<rparr>) \<and>
           ds \<noteq> [] \<and> set (map stage ds) = {''content_reading''} \<and> list_all success ds"
proof (cases "\<exists>c'. c = Some c' \<and> c' \<noteq> []")
  case True
  with assms have "readFileContent pf q u c = (Inr raw, q\<lparr>importDiagnostics := importDiagnostics q @
      [\<lparr>stage = ''content_reading'', success = True, details = ''Using provided JSON content''\<rparr>]\<rparr>)"
    by (auto simp: readFileContent_def logDiagnostic_def)
  then show ?thesis by (intro exI[of _ "[\<lparr>stage = ''content_reading'', success = True,
      details = ''Using provided JSON content''\<rparr>]"]) simp
next
  case False
  with assms have "readFileContent pf q u c = (Inr raw, q\<lparr>importDiagnostics := importDiagnostics q @
      [\<lparr>stage = ''content_reading'', success = True, details = ''Reading JSON content from file system''\<rparr>,
       \<lparr>stage = ''content_reading'', success = True, details = ''Successfully read file content''\<rparr>]\<rparr>)"
    by (auto simp: readFileContent_def logDiagnostic_def Let_def split: option.splits sum.splits)
  then show ?thesis by (intro exI[of _ "[\<lparr>stage = ''content_reading'', success = True,
      details = ''Reading JSON content from file system''\<rparr>,
       \<lparr>stage = ''content_reading'', success = True, details = ''Successfully read file content''\<rparr>]"]) simp
qed

lemma readFileContent_independent:
  "fst (readFileContent pf p u c) = fst (readFileContent pf q u c)"
  by (auto simp: readFileContent_def Let_def split: option.splits sum.splits)

lemma import_without_tabs:
  assumes rd: "fst (readFileContent pf p fileUri jsonContent) = Inr raw"
    and parse: "JSON_parse pf raw = Inr t"
    and nn: "\<not> nullish t"
    and tabs: "\<not> isArray (propOf t ''tabs'')"
  shows "\<exists>ds p'. importJSONTemplate pf store p fileUri jsonContent =
           (Inl (Error (''Failed to import JSON template: '' @ lacks_tabs_message t)), store, p') \<and>
         ds \<noteq> [] \<and> set (map stage ds) = {''content_reading''} \<and> list_all success ds \<and>
         p' = p\<lparr>importDiagnostics :=
           [\<lparr>stage = ''import_start'', success = True,
              details = ''Starting JSON template import from: '' @ fileUri\<rparr>,
            \<lparr>stage = ''file_access_check'', success = True,
              details = ''Checking file accessibility: '' @ fileUri\<rparr>] @ ds @
           [\<lparr>stage = ''json_parsing'', success = True, details = ''Starting JSON parsing''\<rparr>,
            \<lparr>stage = ''json_parsing'', success = True, details = ''JSON parsing successful''\<rparr>,
            \<lparr>stage = ''structure_validation'', success = True,
              details = ''Starting template structure validation''\<rparr>,
            \<lparr>stage = ''structure_validation'', success = False,
              details = (if \<not> truthy (js_or (propOf t ''windowId'') (propOf t ''id''))
                         then ''Missing required windowId or id field''
                         else if \<not> truthy (propOf t ''name'') then ''Missing required name field''
                         else ''Missing or invalid tabs array'')\<rparr>,
            \<lparr>stage = ''import_failed'', success = False,
              details = ''Error: '' @ lacks_tabs_message t\<rparr>]\<rparr>"
proof -
  let ?q = "validateFileAccess (logDiagnostic (p\<lparr>importDiagnostics := []\<rparr>) ''import_start'' True
                (''Starting JSON template import from: '' @ fileUri)) fileUri"
  have "fst (readFileContent pf ?q fileUri jsonContent) = Inr raw"
    using rd readFileContent_independent by metis
  from readFileContent_Inr[OF this] obtain ds where
    r: "readFileContent pf ?q fileUri jsonContent = (Inr raw, ?q\<lparr>importDiagnostics := importDiagnostics ?q @ ds\<rparr>)"
    and ds: "ds \<noteq> []" "set (map stage ds) = {''content_reading''}" "list_all success ds"
    by blast
  have "importJSONTemplate pf store p fileUri jsonContent =
           (Inl (Error (''Failed to import JSON template: '' @ lacks_tabs_message t)), store,
            p\<lparr>importDiagnostics :=
           [\<lparr>stage = ''import_start'', success = True,
              details = ''Starting JSON template import from: '' @ fileUri\<rparr>,
            \<lparr>stage = ''file_access_check'', success = True,
              details = ''Checking file accessibility: '' @ fileUri\<rparr>] @ ds @
           [\<lparr>stage = ''json_parsing'', success = True, details = ''Starting JSON parsing''\<rparr>,
            \<lparr>stage = ''json_parsing'', success = True, details = ''JSON parsing successful''\<rparr>,
            \<lparr>stage = ''structure_validation'', success = True,
              details = ''Starting template structure validation''\<rparr>,
            \<lparr>stage = ''structure_validation'', success = False,
              details = (if \<not> truthy (js_or (propOf t ''windowId'') (propOf t ''id''))
                         then ''Missing required windowId or id field''
                         else if \<not> truthy (propOf t ''name'') then ''Missing required name field''
                         else ''Missing or invalid tabs array'')\<rparr>,
            \<lparr>stage = ''import_failed'', success = False,
              details = ''Error: '' @ lacks_tabs_message t\<rparr>]\<rparr>)"
    unfolding importJSONTemplate_def import_stages_def
    using r parse nn tabs
    by (simp add: parseJSONContent_def validateTemplateStructure_def logDiagnostic_def
        logError_def validateFileAccess_def lacks_tabs_message_def Let_def)
  with ds show ?thesis by blast
qed


text \<open>
  C5 (amended). Importing a document without a tabs array fails at the
  structural-validation stage: the only failing log entries are the one of that stage
  and the final \<open>import_failed\<close> entry, no later stage is logged, nothing is stored,
  and the caller gets exactly one error. The log's last entry has \<open>success = False\<close>.
  The error that is thrown carries only the message
  \<open>Failed to import JSON template: <message of the failed check>\<close>; the completed log
  stays in the provider, where \<open>getImportDiagnostics\<close> returns it.
  (The document is a parsed value other than null.)
\<close>

theorem import_without_tabs_fails_at_validation:
  assumes "fst (readFileContent pf p fileUri jsonContent) = Inr raw"
    and "JSON_parse pf raw = Inr t"
    and "\<not> nullish t"
    and "\<not> isArray (propOf t ''tabs'')"
  shows "fst (importJSONTemplate pf store p fileUri jsonContent)
           = Inl (Error (''Failed to import JSON template: '' @ lacks_tabs_message t)) \<and>
         set (map stage (getImportDiagnostics (snd (snd (importJSONTemplate pf store p fileUri jsonContent)))))
           = {''import_start'', ''file_access_check'', ''content_reading'', ''json_parsing'',
              ''structure_validation'', ''import_failed''} \<and>
         map stage (filter (\<lambda>d. \<not> success d)
             (getImportDiagnostics (snd (snd (importJSONTemplate pf store p fileUri jsonContent)))))
           = [''structure_validation'', ''import_failed''] \<and>
         last (getImportDiagnostics (snd (snd (importJSONTemplate pf store p fileUri jsonContent))))
           = \<lparr>stage = ''import_failed'', success = False,
              details = ''Error: '' @ lacks_tabs_message t\<rparr> \<and>
         fst (snd (importJSONTemplate pf store p fileUri jsonContent)) = store \<and>
         windowData (snd (snd (importJSONTemplate pf store p fileUri jsonContent))) = windowData p \<and>
         referenceData (snd (snd (importJSONTemplate pf store p fileUri jsonContent))) = referenceData p"
proof -
  from import_without_tabs[OF assms, of store] obtain ds p' where
    r: "importJSONTemplate pf store p fileUri jsonContent =
           (Inl (Error (''Failed to import JSON template: '' @ lacks_tabs_message t)), store, p')"
    and ds: "ds \<noteq> []" "set (map stage ds) = {''content_reading''}" "list_all success ds"
    and p': "p' = p\<lparr>importDiagnostics :=
           [\<lparr>stage = ''import_start'', success = True,
              details = ''Starting JSON template import from: '' @ fileUri\<rparr>,
            \<lparr>stage = ''file_access_check'', success = True,
              details = ''Checking file accessibility: '' @ fileUri\<rparr>] @ ds @
           [\<lparr>stage = ''json_parsing'', success = True, details = ''Starting JSON parsing''\<rparr>,
            \<lparr>stage = ''json_parsing'', success = True, details = ''JSON parsing successful''\<rparr>,
            \<lparr>stage = ''structure_validation'', success = True,
              details = ''Starting template structure validation''\<rparr>,
            \<lparr>stage = ''structure_validation'', success = False,
              details = (if \<not> truthy (js_or (propOf t ''windowId'') (propOf t ''id''))
                         then ''Missing required windowId or id field''
                         else if \<not> truthy (propOf t ''name'') then ''Missing required name field''
                         else ''Missing or invalid tabs array'')\<rparr>,
            \<lparr>stage = ''import_failed'', success = False,
              details = ''Error: '' @ lacks_tabs_message t\<rparr>]\<rparr>"
    by blast
  have f: "filter (\<lambda>d. \<not> success d) ds = []"
    using ds(3) by (simp add: list_all_iff filter_empty_conv)
  have s: "set (map stage ds) = {''content_reading''}" by (rule ds(2))
  show ?thesis
    unfolding r getImportDiagnostics_def p'
    using f s by (simp add: insert_commute) 
qed

theorem import_without_tabs_fails_at_validation_witness:
  "fst (readFileContent (platform_yielding tabless_window) new_JSONFileDataProvider
          ''file:///window.json'' (Some ''{ }'')) = Inr ''{ }'' \<and>
   JSON_parse (platform_yielding tabless_window) ''{ }'' = Inr tabless_window \<and>
   \<not> nullish tabless_window \<and> \<not> isArray (propOf tabless_window ''tabs'') \<and>
   fst (importJSONTemplate (platform_yielding tabless_window) Map.empty new_JSONFileDataProvider
          ''file:///window.json'' (Some ''{ }''))
     = Inl (Error ''Failed to import JSON template: Template missing required tabs array'') \<and>
   success (last (getImportDiagnostics (snd (snd
      (importJSONTemplate (platform_yielding tabless_window) Map.empty new_JSONFileDataProvider
          ''file:///window.json'' (Some ''{ }'')))))) = False"
proof -
  have h1: "fst (readFileContent (platform_yielding tabless_window) new_JSONFileDataProvider
          ''file:///window.json'' (Some ''{ }'')) = Inr ''{ }''"
    by (simp add: readFileContent_def)
  have h2: "JSON_parse (platform_yielding tabless_window) ''{ }'' = Inr tabless_window"
    by (simp add: platform_yielding_def)
  have h3: "\<not> nullish tabless_window" and h4: "\<not> isArray (propOf tabless_window ''tabs'')"
    by (simp_all add: tabless_window_def)
  have m: "lacks_tabs_message tabless_window = ''Template missing required tabs array''"
    by (simp add: lacks_tabs_message_def tabless_window_def js_or_def)
  from import_without_tabs_fails_at_validation[OF h1 h2 h3 h4, of Map.empty]
  show ?thesis using h1 h2 h3 h4 by (simp add: m)
qed

text \<open>
  Two imports of the same document from different files throw the same error and leave
  different logs: the error does not carry the log.
\<close>

theorem import_error_carries_no_log_counterexample:
  "fst (importJSONTemplate (platform_yielding tabless_window) Map.empty new_JSONFileDataProvider
          ''file:///a.json'' (Some ''{ }''))
     = Inl (Error ''Failed to import JSON template: Template missing required tabs array'') \<and>
   fst (importJSONTemplate (platform_yielding tabless_window) Map.empty new_JSONFileDataProvider
          ''file:///b.json'' (Some ''{ }''))
     = Inl (Error ''Failed to import JSON template: Template missing required tabs array'') \<and>
   getImportDiagnostics (snd (snd (importJSONTemplate (platform_yielding tabless_window) Map.empty
          new_JSONFileDataProvider ''file:///a.json'' (Some ''{ }''))))
     \<noteq> getImportDiagnostics (snd (snd (importJSONTemplate (platform_yielding tabless_window) Map.empty
          new_JSONFileDataProvider ''file:///b.json'' (Some ''{ }''))))"
  by (simp add: importJSONTemplate_def import_stages_def readFileContent_def
      parseJSONContent_def validateTemplateStructure_def validateFileAccess_def logDiagnostic_def
      logError_def platform_yielding_def tabless_window_def new_JSONFileDataProvider_def
      getImportDiagnostics_def js_or_def Let_def)


lemma import_without_id:
  assumes rd: "fst (readFileContent pf p fileUri jsonContent) = Inr raw"
    and parse: "JSON_parse pf raw = Inr t"
    and nn: "\<not> nullish t"
    and noid: "\<not> truthy (propOf t ''windowId'')" "\<not> truthy (propOf t ''id'')"
  shows "\<exists>ds p'. importJSONTemplate pf store p fileUri jsonContent =
           (Inl (Error ''Failed to import JSON template: Template missing required windowId or id field''),
            store, p') \<and>
         set (map stage ds) = {''content_reading''} \<and>
         p' = p\<lparr>importDiagnostics :=
           [\<lparr>stage = ''import_start'', success = True,
              details = ''Starting JSON template import from: '' @ fileUri\<rparr>,
            \<lparr>stage = ''file_access_check'', success = True,
              details = ''Checking file accessibility: '' @ fileUri\<rparr>] @ ds @
           [\<lparr>stage = ''json_parsing'', success = True, details = ''Starting JSON parsing''\<rparr>,
            \<lparr>stage = ''json_parsing'', success = True, details = ''JSON parsing successful''\<rparr>,
            \<lparr>stage = ''structure_validation'', success = True,
              details = ''Starting template structure validation''\<rparr>,
            \<lparr>stage = ''structure_validation'', success = False,
              details = ''Missing required windowId or id field''\<rparr>,
            \<lparr>stage = ''import_failed'', success = False,
              details = ''Error: Template missing required windowId or id field''\<rparr>]\<rparr>"
proof -
  let ?q = "validateFileAccess (logDiagnostic (p\<lparr>importDiagnostics := []\<rparr>) ''import_start'' True
                (''Starting JSON template import from: '' @ fileUri)) fileUri"
  have "fst (readFileContent pf ?q fileUri jsonContent) = Inr raw"
    using rd readFileContent_independent by metis
  from readFileContent_Inr[OF this] obtain ds where
    r: "readFileContent pf ?q fileUri jsonContent = (Inr raw, ?q\<lparr>importDiagnostics := importDiagnostics ?q @ ds\<rparr>)"
    and ds: "set (map stage ds) = {''content_reading''}"
    by blast
  have "\<exists>p'. importJSONTemplate pf store p fileUri jsonContent =
           (Inl (Error ''Failed to import JSON template: Template missing required windowId or id field''),
            store, p') \<and>
         p' = p\<lparr>importDiagnostics :=
           [\<lparr>stage = ''import_start'', success = True,
              details = ''Starting JSON template import from: '' @ fileUri\<rparr>,
            \<lparr>stage = ''file_access_check'', success = True,
              details = ''Checking file accessibility: '' @ fileUri\<rparr>] @ ds @
           [\<lparr>stage = ''json_parsing'', success = True, details = ''Starting JSON parsing''\<rparr>,
            \<lparr>stage = ''json_parsing'', success = True, details = ''JSON parsing successful''\<rparr>,
            \<lparr>stage = ''structure_validation'', success = True,
              details = ''Starting template structure validation''\<rparr>,
            \<lparr>stage = ''structure_validation'', success = False,
              details = ''Missing required windowId or id field''\<rparr>,
            \<lparr>stage = ''import_failed'', success = False,
              details = ''Error: Template missing required windowId or id field''\<rparr>]\<rparr>"
    unfolding importJSONTemplate_def import_stages_def
    using r parse nn noid
    by (simp add: parseJSONContent_def validateTemplateStructure_def logDiagnostic_def
        logError_def validateFileAccess_def js_or_def Let_def)
  with ds show ?thesis by blast
qed

lemma slug_not_Nil: "nm \<noteq> [] \<Longrightarrow> slug nm \<noteq> []"
  by (cases nm)
    (auto simp add: slug_def replace_non_A_Z_0_9_def toUpperCase_def toUpperCase_unit_def Let_def)

text \<open>The sharp s is upper-cased to two letters: the slug can be longer than the name.\<close>

lemma slug_sharp_s: "slug (''Stra'' @ [CHR 0xDF] @ ''e 9'') = ''STRASSE_9''"
  by code_simp

lemma extractAndAnalyzeWindowId_from_name:
  assumes "\<not> truthy (propOf t ''windowId'')" "\<not> truthy (propOf t ''id'')"
    and "propOf t ''name'' = JStr nm" and "nm \<noteq> []"
  shows "fst (extractAndAnalyzeWindowId p t) = Inr (JStr (slug nm))"
proof -
  from assms(3) have "\<not> nullish t" by (cases t) auto
  moreover have "slug nm \<noteq> []" using assms(4) by (rule slug_not_Nil)
  ultimately show ?thesis using assms
    by (simp add: extractAndAnalyzeWindowId_def Let_def)
qed

text \<open>
  C3 (amended). A document that has a name and neither \<open>windowId\<close> nor \<open>id\<close> is
  rejected by the import at structural validation, with the message
  \<open>Template missing required windowId or id field\<close>: window-id extraction is not
  reached, no window id is resolved and nothing is stored. The slug of the name
  (upper-cased, then every code unit other than A-Z and 0-9 replaced by an underscore) is what
  \<open>extractAndAnalyzeWindowId\<close> returns when it is run on such a document by itself.
\<close>

theorem name_derived_window_id_unreachable:
  assumes "fst (readFileContent pf p fileUri jsonContent) = Inr raw"
    and "JSON_parse pf raw = Inr t"
    and "\<not> truthy (propOf t ''windowId'')" and "\<not> truthy (propOf t ''id'')"
    and "propOf t ''name'' = JStr nm" and "nm \<noteq> []"
  shows "fst (importJSONTemplate pf store p fileUri jsonContent)
           = Inl (Error ''Failed to import JSON template: Template missing required windowId or id field'') \<and>
         ''windowid_extraction'' \<notin> set (map stage (getImportDiagnostics
            (snd (snd (importJSONTemplate pf store p fileUri jsonContent))))) \<and>
         windowData (snd (snd (importJSONTemplate pf store p fileUri jsonContent))) = windowData p \<and>
         fst (extractAndAnalyzeWindowId p t) = Inr (JStr (slug nm))"
proof -
  from assms(5) have nn: "\<not> nullish t" by (cases t) auto
  from import_without_id[OF assms(1,2) nn assms(3,4), of store] obtain ds p' where
    r: "importJSONTemplate pf store p fileUri jsonContent =
           (Inl (Error ''Failed to import JSON template: Template missing required windowId or id field''),
            store, p')"
    and ds: "set (map stage ds) = {''content_reading''}"
    and log: "p' = p\<lparr>importDiagnostics :=
           [\<lparr>stage = ''import_start'', success = True,
              details = ''Starting JSON template import from: '' @ fileUri\<rparr>,
            \<lparr>stage = ''file_access_check'', success = True,
              details = ''Checking file accessibility: '' @ fileUri\<rparr>] @ ds @
           [\<lparr>stage = ''json_parsing'', success = True, details = ''Starting JSON parsing''\<rparr>,
            \<lparr>stage = ''json_parsing'', success = True, details = ''JSON parsing successful''\<rparr>,
            \<lparr>stage = ''structure_validation'', success = True,
              details = ''Starting template structure validation''\<rparr>,
            \<lparr>stage = ''structure_validation'', success = False,
              details = ''Missing required windowId or id field''\<rparr>,
            \<lparr>stage = ''import_failed'', success = False,
              details = ''Error: Template missing required windowId or id field''\<rparr>]\<rparr>"
    by blast
  show ?thesis
    unfolding r getImportDiagnostics_def log
    using ds extractAndAnalyzeWindowId_from_name[OF assms(3-6)] by simp
qed

theorem name_derived_window_id_unreachable_witness:
  "fst (readFileContent (platform_yielding site_audit_example) new_JSONFileDataProvider
          ''file:///site_audit.json'' (Some ''{ }'')) = Inr ''{ }'' \<and>
   JSON_parse (platform_yielding site_audit_example) ''{ }'' = Inr site_audit_example \<and>
   propOf site_audit_example ''windowId'' = JUndefined \<and>
   propOf site_audit_example ''id'' = JUndefined \<and>
   propOf site_audit_example ''name'' = JStr ''Site Audit'' \<and>
   fst (importJSONTemplate (platform_yielding site_audit_example) Map.empty new_JSONFileDataProvider
          ''file:///site_audit.json'' (Some ''{ }''))
     = Inl (Error ''Failed to import JSON template: Template missing required windowId or id field'') \<and>
   windowData (snd (snd (importJSONTemplate (platform_yielding site_audit_example) Map.empty
          new_JSONFileDataProvider ''file:///site_audit.json'' (Some ''{ }'')))) = [] \<and>
   fst (extractAndAnalyzeWindowId new_JSONFileDataProvider site_audit_example)
     = Inr (JStr ''SITE_AUDIT'')"
proof -
  have h1: "fst (readFileContent (platform_yielding site_audit_example) new_JSONFileDataProvider
          ''file:///site_audit.json'' (Some ''{ }'')) = Inr ''{ }''"
    by (simp add: readFileContent_def)
  have h2: "JSON_parse (platform_yielding site_audit_example) ''{ }'' = Inr site_audit_example"
    by (simp add: platform_yielding_def)
  have h3: "\<not> truthy (propOf site_audit_example ''windowId'')"
    and h4: "\<not> truthy (propOf site_audit_example ''id'')"
    and h5: "propOf site_audit_example ''name'' = JStr ''Site Audit''"
    and h6: "''Site Audit'' \<noteq> []"
    and u: "propOf site_audit_example ''windowId'' = JUndefined"
      "propOf site_audit_example ''id'' = JUndefined"
    by (simp_all add: site_audit_example_def)
  have sl: "slug ''Site Audit'' = ''SITE_AUDIT''"
    by code_simp
  have w: "windowData new_JSONFileDataProvider = []"
    by (simp add: new_JSONFileDataProvider_def logDiagnostic_def)
  from name_derived_window_id_unreachable[OF h1 h2 h3 h4 h5 h6, of Map.empty]
  show ?thesis using h1 h2 h5 u by (simp add: sl w)
qed


text \<open>
  A complete template that has a name and no id: the import throws, and the provider
  holds no window afterwards.
\<close>

theorem import_of_named_template_rejected_counterexample:
  "propOf site_audit_template ''name'' = JStr ''Site Audit'' \<and>
   propOf site_audit_template ''windowId'' = JUndefined \<and>
   propOf site_audit_template ''id'' = JUndefined \<and>
   fst (importJSONTemplate (platform_yielding site_audit_template) Map.empty new_JSONFileDataProvider
          ''file:///site_audit.json'' (Some ''{ }''))
     = Inl (Error ''Failed to import JSON template: Template missing required windowId or id field'') \<and>
   windowData (snd (snd (importJSONTemplate (platform_yielding site_audit_template) Map.empty
          new_JSONFileDataProvider ''file:///site_audit.json'' (Some ''{ }'')))) = []"
  by (simp add: importJSONTemplate_def import_stages_def readFileContent_def
      parseJSONContent_def validateTemplateStructure_def validateFileAccess_def logDiagnostic_def
      logError_def platform_yielding_def site_audit_template_def new_JSONFileDataProvider_def
      js_or_def Let_def)

subsection \<open>The imported windows\<close>

lemma windowData_logDiagnostic [simp]: "windowData (logDiagnostic p s b d) = windowData p"
  by (simp add: logDiagnostic_def)

lemma windowData_logError [simp]: "windowData (logError p s e) = windowData p"
  by (simp add: logError_def)

lemma windowData_readFileContent: "windowData (snd (readFileContent pf p u c)) = windowData p"
  by (auto simp: readFileContent_def Let_def split: option.splits sum.splits)

lemma windowData_parseJSONContent: "windowData (snd (parseJSONContent pf p raw)) = windowData p"
  by (auto simp: parseJSONContent_def Let_def split: sum.splits)

lemma windowData_validateTemplateStructure:
  "windowData (snd (validateTemplateStructure p t)) = windowData p"
  by (auto simp: validateTemplateStructure_def Let_def split: sum.splits)

lemma windowData_extractAndAnalyzeWindowId:
  "windowData (snd (extractAndAnalyzeWindowId p t)) = windowData p"
  by (auto simp: extractAndAnalyzeWindowId_def Let_def split: sum.splits json.splits)

lemma windowData_adaptTemplateToADFormat:
  "windowData (snd (snd (adaptTemplateToADFormat store p t wid))) = windowData p"
  by (auto simp: adaptTemplateToADFormat_def Let_def split: sum.splits prod.splits)

lemma windowData_extractReferenceData:
  "windowData (snd (extractReferenceData p t)) = windowData p"
  by (auto simp: extractReferenceData_def Let_def split: sum.splits prod.splits)

lemma windowData_storeImportedData:
  "windowData (storeImportedData pf p t w) = Map_set (w_id w) w (windowData p)"
  by (simp add: storeImportedData_def Let_def)

lemma Map_set_not_Nil: "Map_set k v al \<noteq> []" "[] \<noteq> Map_set k v al"
  by (cases al; cases k; auto simp: Map_set_def)+

lemma import_stages_windowData:
  assumes "import_stages pf store p fileUri jsonContent = (r, s', p')"
  shows "(windowData p' = windowData p \<and> isl r) \<or>
         (\<exists>w. windowData p' = Map_set (w_id w) w (windowData p))"
proof -
  obtain r2 p2 where 2: "readFileContent pf (validateFileAccess p fileUri) fileUri jsonContent = (r2, p2)"
    by (cases "readFileContent pf (validateFileAccess p fileUri) fileUri jsonContent")
  have w2: "windowData p2 = windowData p"
    using windowData_readFileContent[of pf "validateFileAccess p fileUri" fileUri jsonContent] 2
    by (simp add: validateFileAccess_def)
  show ?thesis
  proof (cases r2)
    case (Inl e)
    with assms 2 w2 show ?thesis by (auto simp: import_stages_def)
  next
    case (Inr rawJson)
    obtain r3 p3 where 3: "parseJSONContent pf p2 rawJson = (r3, p3)"
      by (cases "parseJSONContent pf p2 rawJson")
    have w3: "windowData p3 = windowData p"
      using windowData_parseJSONContent[of pf p2 rawJson] 3 w2 by simp
    show ?thesis
    proof (cases r3)
      case (Inl e)
      with assms 2 3 w3 \<open>r2 = Inr rawJson\<close> show ?thesis by (auto simp: import_stages_def)
    next
      case (Inr t)
      note r3 = this
      obtain r4 p4 where 4: "validateTemplateStructure p3 t = (r4, p4)"
        by (cases "validateTemplateStructure p3 t")
      have w4: "windowData p4 = windowData p"
        using windowData_validateTemplateStructure[of p3 t] 4 w3 by simp
      show ?thesis
      proof (cases r4)
        case (Inl e)
        with assms 2 3 4 w4 \<open>r2 = Inr rawJson\<close> r3 show ?thesis by (auto simp: import_stages_def)
      next
        case (Inr u)
        note r4 = this
        obtain r5 p5 where 5: "extractAndAnalyzeWindowId p4 t = (r5, p5)"
          by (cases "extractAndAnalyzeWindowId p4 t")
        have w5: "windowData p5 = windowData p"
          using windowData_extractAndAnalyzeWindowId[of p4 t] 5 w4 by simp
        show ?thesis
        proof (cases r5)
          case (Inl e)
          with assms 2 3 4 5 w5 \<open>r2 = Inr rawJson\<close> r3 r4 show ?thesis
            by (auto simp: import_stages_def)
        next
          case (Inr wid)
          note r5 = this
          obtain r6 s6 p6 where 6: "adaptTemplateToADFormat store p5 t wid = (r6, s6, p6)"
            by (cases "adaptTemplateToADFormat store p5 t wid")
          have w6: "windowData p6 = windowData p"
            using windowData_adaptTemplateToADFormat[of store p5 t wid] 6 w5 by simp
          show ?thesis
          proof (cases r6)
            case (Inl e)
            with assms 2 3 4 5 6 w6 \<open>r2 = Inr rawJson\<close> r3 r4 r5 show ?thesis
              by (auto simp: import_stages_def)
          next
            case (Inr w)
            note r6 = this
            obtain r8 p8 where 8: "extractReferenceData (storeImportedData pf p6 t w) t = (r8, p8)"
              by (cases "extractReferenceData (storeImportedData pf p6 t w) t")
            have w8: "windowData p8 = Map_set (w_id w) w (windowData p)"
              using windowData_extractReferenceData[of "storeImportedData pf p6 t w" t] 8 w6
              by (simp add: windowData_storeImportedData)
            have "windowData p' = windowData p8"
              using assms 2 3 4 5 6 8 \<open>r2 = Inr rawJson\<close> r3 r4 r5 r6
              by (auto simp: import_stages_def split: sum.splits)
            with w8 show ?thesis by auto
          qed
        qed
      qed
    qed
  qed
qed

lemma importJSONTemplate_windowData:
  assumes "importJSONTemplate pf store p fileUri jsonContent = (r, s', p')"
  shows "(windowData p' = windowData p \<and> isl r) \<or>
         (\<exists>w. windowData p' = Map_set (w_id w) w (windowData p))"
proof -
  let ?p0 = "logDiagnostic (p\<lparr>importDiagnostics := []\<rparr>) ''import_start'' True
                (''Starting JSON template import from: '' @ fileUri)"
  obtain r1 s1 p1 where 1: "import_stages pf store ?p0 fileUri jsonContent = (r1, s1, p1)"
    by (cases "import_stages pf store ?p0 fileUri jsonContent")
  have w0: "windowData ?p0 = windowData p" by simp
  from assms 1 have "windowData p' = windowData p1 \<and> isl r = isl r1"
    by (auto simp: importJSONTemplate_def split: sum.splits)
  with import_stages_windowData[OF 1] w0 show ?thesis by auto
qed

text \<open>
  C10. \<open>isConnected\<close> always resolves, to true exactly when the provider holds a
  window definition. It holds none when it is constructed and after
  \<open>clearImportedData\<close>; an import either leaves the stored windows as they were (and
  then it has failed) or has stored its adapted window, and every import that
  succeeds has stored one.
\<close>

theorem isConnected_iff_window_stored:
  "isConnected p = Inr (windowData p \<noteq> []) \<and>
   isConnected new_JSONFileDataProvider = Inr False \<and>
   isConnected (clearImportedData p) = Inr False \<and>
   isConnected (storeImportedData pf p t w) = Inr True \<and>
   (\<forall>r s' p'. importJSONTemplate pf store p fileUri jsonContent = (r, s', p') \<longrightarrow>
      (isConnected p' = isConnected p \<and> isl r) \<or> isConnected p' = Inr True) \<and>
   (\<forall>b s' p'. importJSONTemplate pf store p fileUri jsonContent = (Inr b, s', p') \<longrightarrow>
      isConnected p' = Inr True)"
proof (intro conjI allI impI)
  show "isConnected p = Inr (windowData p \<noteq> [])" by (simp add: isConnected_def)
  show "isConnected new_JSONFileDataProvider = Inr False"
    by (simp add: isConnected_def new_JSONFileDataProvider_def)
  show "isConnected (clearImportedData p) = Inr False"
    by (simp add: isConnected_def clearImportedData_def)
  show "isConnected (storeImportedData pf p t w) = Inr True"
    by (simp add: isConnected_def windowData_storeImportedData Map_set_not_Nil)
next
  fix r s' p' assume "importJSONTemplate pf store p fileUri jsonContent = (r, s', p')"
  from importJSONTemplate_windowData[OF this]
  show "(isConnected p' = isConnected p \<and> isl r) \<or> isConnected p' = Inr True"
    by (auto simp: isConnected_def Map_set_not_Nil)
next
  fix b s' p' assume "importJSONTemplate pf store p fileUri jsonContent = (Inr b, s', p')"
  from importJSONTemplate_windowData[OF this]
  show "isConnected p' = Inr True"
    by (auto simp: isConnected_def Map_set_not_Nil)
qed

theorem isConnected_iff_window_stored_witness:
  "isConnected new_JSONFileDataProvider = Inr False \<and>
   fst (importJSONTemplate (platform_yielding inspection_window) Map.empty new_JSONFileDataProvider
          ''file:///inspection.json'' (Some ''{ }'')) = Inr True \<and>
   isConnected (snd (snd (importJSONTemplate (platform_yielding inspection_window) Map.empty
          new_JSONFileDataProvider ''file:///inspection.json'' (Some ''{ }'')))) = Inr True \<and>
   isConnected (clearImportedData (snd (snd (importJSONTemplate (platform_yielding inspection_window)
          Map.empty new_JSONFileDataProvider ''file:///inspection.json'' (Some ''{ }''))))) = Inr False"
proof -
  have ok: "fst (importJSONTemplate (platform_yielding inspection_window) Map.empty new_JSONFileDataProvider
          ''file:///inspection.json'' (Some ''{ }'')) = Inr True"
    by (simp add: importJSONTemplate_def import_stages_def readFileContent_def
      parseJSONContent_def validateTemplateStructure_def validateFileAccess_def logDiagnostic_def
      logError_def platform_yielding_def inspection_window_def inspection_values_def
      new_JSONFileDataProvider_def extractAndAnalyzeWindowId_def adaptTemplateToADFormat_def
      storeImportedData_def extractReferenceData_def extractTabReferences_def
      extractFieldReference_def iterate_def adapter_eval)
  obtain s' p' where r: "importJSONTemplate (platform_yielding inspection_window) Map.empty
      new_JSONFileDataProvider ''file:///inspection.json'' (Some ''{ }'') = (Inr True, s', p')"
    using ok by (metis prod.collapse)
  from isConnected_iff_window_stored[where p = new_JSONFileDataProvider
      and pf = "platform_yielding inspection_window" and store = Map.empty
      and fileUri = "''file:///inspection.json''" and jsonContent = "Some ''{ }''"] r
  have "isConnected new_JSONFileDataProvider = Inr False" "isConnected p' = Inr True" by blast+
  moreover from isConnected_iff_window_stored[where p = p'] have "isConnected (clearImportedData p') = Inr False"
    by blast
  ultimately show ?thesis using r by simp
qed


subsection \<open>The connection monitor\<close>

text \<open>
  C4 (amended). A poll of the External provider sets the state to \<open>connected\<close> when
  \<open>isConnected()\<close> resolves to true; when it resolves to false, to \<open>cached\<close> if the
  provider's cache is not empty and to \<open>offline\<close> if it is empty; when the check
  throws, to \<open>cached\<close> if the cache is not empty and to \<open>error\<close> only if it is empty.
  The provider's own health check never throws, so polling it gives \<open>connected\<close>,
  \<open>cached\<close> or \<open>offline\<close>.
\<close>

theorem external_poll_transitions:
  "connectionStatus (checkConnection ''ExternalMetadataProvider'' (Inr True) c ts m) = connected \<and>
   connectionStatus (checkConnection ''ExternalMetadataProvider'' (Inr False) c ts m)
     = (if cache_not_empty c then cached_status else offline) \<and>
   connectionStatus (checkConnection ''ExternalMetadataProvider'' (Inl e) c ts m)
     = (if cache_not_empty c then cached_status else error_status) \<and>
   connectionStatus (poll_external fetch p ts m)
     = (if isConnected_external fetch p = Inr True then connected
        else if cache p \<noteq> [] then cached_status else offline)"
  by (auto simp: checkConnection_def poll_external_def isConnected_external_def cache_not_empty_def
      split: sum.splits)

text \<open>The check throws while the cache holds one entry: the state becomes \<open>cached\<close>, not \<open>error\<close>.\<close>

theorem exception_with_cache_counterexample:
  "connectionStatus (checkConnection ''ExternalMetadataProvider''
      (Inl (TypeError ''Network request failed'')) (Some 1) ''10:15:00'' initial_monitor)
     = cached_status \<and>
   connectionStatus (checkConnection ''ExternalMetadataProvider''
      (Inl (TypeError ''Network request failed'')) (Some 1) ''10:15:00'' initial_monitor)
     \<noteq> error_status"
  by (simp add: checkConnection_def cache_not_empty_def initial_monitor_def)

subsection \<open>The cache of the External provider\<close>










text \<open>
  The values fetched from \<open>unprintable_length_server\<close> are stored, the first call
  answers the empty list, and a second call within the TTL answers the stored values.
\<close>

lemma getReferenceValues_unprintable_length:
  "fst (getReferenceValues unprintable_length_server 1000 1005 Map.empty
       (new_ExternalMetadataProvider ''http://localhost:3001'') ''RESULT_LIST'')
     = Inr (CachedValues (JArr [])) \<and>
   cache (snd (snd (snd (getReferenceValues unprintable_length_server 1000 1005 Map.empty
       (new_ExternalMetadataProvider ''http://localhost:3001'') ''RESULT_LIST''))))
     = [(''ref_RESULT_LIST'', \<lparr>data = CachedValues unprintable_length, timestamp = 1005\<rparr>)] \<and>
   fst (getReferenceValues unreachable_server 2000 2001 Map.empty
       (snd (snd (snd (getReferenceValues unprintable_length_server 1000 1005 Map.empty
          (new_ExternalMetadataProvider ''http://localhost:3001'') ''RESULT_LIST''))))
       ''RESULT_LIST'')
     = Inr (CachedValues unprintable_length)"
  by (simp add: getReferenceValues_def cache_hit_def new_ExternalMetadataProvider_def
      unprintable_length_server_def unprintable_length_def isEmbeddedReference_def endsWith_def
      EMBEDDED_REF_def js_or_def Let_def)






end
